theory Spec2Isabelle
  imports Main "HOL-Library.AList" "HOL-Library.List_Lexorder" "HOL-Library.Product_Lexorder"
begin

section \<open>Values shared by both scripts\<close>

text \<open>
  A Python \<open>str\<close> is a sequence of Unicode code points, so it is modelled as a list of
  natural numbers. \<open>u\<close> turns an ASCII literal into such a string. Lists are ordered
  lexicographically, element by element, which is how Python compares strings.
\<close>

type_synonym ustring = "nat list"

definition u :: "string \<Rightarrow> ustring" where
  "u s = map of_char s"

text \<open>
  What \<open>json.load\<close> returns. An object is an association list in document order; Python
  dictionaries keep insertion order, \<open>d[k] = v\<close> replaces the value of an existing key in
  place and appends a new key (\<open>AList.update\<close>), and \<open>d.get(k)\<close> is \<open>map_of d k\<close>.
  Numbers with a fractional part are not represented.
\<close>

datatype json =
    JNull
  | JBool bool
  | JInt int
  | JStr ustring
  | JArr "json list"
  | JObj "(ustring \<times> json) list"

text \<open>The exceptions the scripts can raise, by Python class. A \<open>RuntimeError\<close> is raised
  in three places, told apart by their message: the converter's names the item id it
  formatted into the text (\<open>None\<close> when the record has none), the two readers wrap a
  validation failure.\<close>

datatype reason =
    MetaNotFound "ustring option"
  | StarwardInvalid
  | SnapHutaoInvalid

datatype error =
    AttributeError
  | TypeError
  | ValidationError
  | RuntimeError reason
  | ValueError
  | IndexError
  | EOFError

text \<open>Python's truth value of an \<open>Optional[str]\<close>: \<open>None\<close> and \<open>""\<close> are false.\<close>

definition truthy :: "ustring option \<Rightarrow> bool" where
  "truthy x = (case x of None \<Rightarrow> False | Some s \<Rightarrow> s \<noteq> [])"

text \<open>\<open>x or ""\<close> for an \<open>Optional[str]\<close>.\<close>

definition or_empty :: "ustring option \<Rightarrow> ustring" where
  "or_empty x = (case x of None \<Rightarrow> [] | Some s \<Rightarrow> s)"

section \<open>Data model\<close>

text \<open>\<open>StarwardRecord\<close>: every declared field optional, \<open>extra\<close> a dictionary that defaults
  to \<open>{}\<close>. Keys of the input that are not declared fields are kept by the model
  (\<open>extra = "allow"\<close>) apart from the declared field \<open>extra\<close>; they are \<open>sw_undeclared\<close>.\<close>

record StarwardRecord =
  sw_uigf_gacha_type :: "ustring option"
  sw_uid :: "ustring option"
  sw_id :: "ustring option"
  sw_gacha_type :: "ustring option"
  sw_name :: "ustring option"
  sw_item_type :: "ustring option"
  sw_rank_type :: "ustring option"
  sw_time :: "ustring option"
  sw_item_id :: "ustring option"
  sw_count :: "ustring option"
  sw_lang :: "ustring option"
  sw_extra :: "(ustring \<times> json) list"
  sw_undeclared :: "(ustring \<times> json) list"

record StarwardUserBundle =
  swb_uid :: ustring
  swb_timezone :: "int option"
  swb_lang :: "ustring option"
  swb_list :: "StarwardRecord list"

record StarwardUIGF =
  swd_info :: "(ustring \<times> json) list"
  swd_hk4e :: "StarwardUserBundle list"
  swd_hkrpg :: "json list option"
  swd_nap :: "json list option"

record SnapHutaoRecord =
  sh_uigf_gacha_type :: "ustring option"
  sh_gacha_type :: "ustring option"
  sh_item_id :: "ustring option"
  sh_time :: "ustring option"
  sh_id :: "ustring option"
  sh_extra :: "(ustring \<times> json) list"
  sh_undeclared :: "(ustring \<times> json) list"

record SnapHutaoUserBundle =
  shb_uid :: ustring
  shb_timezone :: "int option"
  shb_list :: "SnapHutaoRecord list"

record SnapHutaoUIGF =
  shd_info :: "(ustring \<times> json) list"
  shd_hk4e :: "SnapHutaoUserBundle list"

record StarwardMetaItem =
  name :: ustring
  item_type :: "ustring option"
  rank_type :: "ustring option"
  item_id :: ustring

text \<open>\<open>StarwardMetaDB\<close> has the single field \<open>by_id\<close>, a dictionary from item id to entry.\<close>

type_synonym StarwardMetaDB = "(ustring \<times> StarwardMetaItem) list"

definition get :: "StarwardMetaDB \<Rightarrow> ustring \<Rightarrow> StarwardMetaItem option" where
  "get by_id iid = map_of by_id iid"

section \<open>Metadata merge engine (process_metadata.py)\<close>

text \<open>\<open>StarwardMetaDB.add_from_record\<close>. The entry object is mutated in place, which is the
  replacement of the value stored under its key.\<close>

definition add_from_record :: "StarwardMetaDB \<Rightarrow> StarwardRecord \<Rightarrow> StarwardMetaDB" where
  "add_from_record by_id rec =
     (if \<not> truthy (sw_item_id rec) then by_id
      else
        let iid = the (sw_item_id rec) in
        (case map_of by_id iid of
           None \<Rightarrow>
             AList.update iid
               \<lparr>name = or_empty (sw_name rec), item_type = sw_item_type rec,
                rank_type = sw_rank_type rec, item_id = iid\<rparr> by_id
         | Some meta \<Rightarrow>
             let meta1 = (if name meta = [] \<and> truthy (sw_name rec)
                          then meta\<lparr>name := the (sw_name rec)\<rparr> else meta);
                 meta2 = (if \<not> truthy (item_type meta1) \<and> truthy (sw_item_type rec)
                          then meta1\<lparr>item_type := sw_item_type rec\<rparr> else meta1);
                 meta3 = (if \<not> truthy (rank_type meta2) \<and> truthy (sw_rank_type rec)
                          then meta2\<lparr>rank_type := sw_rank_type rec\<rparr> else meta2)
             in AList.update iid meta3 by_id))"

text \<open>The body of the loop of \<open>merge_meta_db\<close>, for one \<open>(iid, s)\<close> of the source.\<close>

definition merge_entry :: "StarwardMetaDB \<Rightarrow> ustring \<Rightarrow> StarwardMetaItem \<Rightarrow> StarwardMetaDB" where
  "merge_entry into iid s =
     (case map_of into iid of
        None \<Rightarrow>
          AList.update iid
            \<lparr>name = or_empty (Some (name s)), item_type = item_type s,
             rank_type = rank_type s, item_id = iid\<rparr> into
      | Some t \<Rightarrow>
          let t1 = (if name t = [] \<and> name s \<noteq> [] then t\<lparr>name := name s\<rparr> else t);
              t2 = (if \<not> truthy (item_type t1) \<and> truthy (item_type s)
                    then t1\<lparr>item_type := item_type s\<rparr> else t1);
              t3 = (if \<not> truthy (rank_type t2) \<and> truthy (rank_type s)
                    then t2\<lparr>rank_type := rank_type s\<rparr> else t2)
          in AList.update iid t3 into)"

fun merge_meta_db :: "StarwardMetaDB \<Rightarrow> StarwardMetaDB \<Rightarrow> StarwardMetaDB" where
  "merge_meta_db into [] = into"
| "merge_meta_db into ((iid, s) # src) = merge_meta_db (merge_entry into iid s) src"

text \<open>\<open>build_meta_db_from_uigf\<close>: every record of every user, in order, into an empty store.\<close>

definition build_meta_db_from_uigf :: "StarwardUIGF \<Rightarrow> StarwardMetaDB" where
  "build_meta_db_from_uigf uigf =
     fold (\<lambda>user db. fold (\<lambda>rec db'. add_from_record db' rec) (swb_list user) db)
       (swd_hk4e uigf) []"

text \<open>A sequence of merge and record-fill operations applied to one store.\<close>

datatype store_op = MergeFrom StarwardMetaDB | AddRecord StarwardRecord

fun apply_op :: "StarwardMetaDB \<Rightarrow> store_op \<Rightarrow> StarwardMetaDB" where
  "apply_op db (MergeFrom src) = merge_meta_db db src"
| "apply_op db (AddRecord rec) = add_from_record db rec"

fun apply_ops :: "StarwardMetaDB \<Rightarrow> store_op list \<Rightarrow> StarwardMetaDB" where
  "apply_ops db [] = db"
| "apply_ops db (x # xs) = apply_ops (apply_op db x) xs"

section \<open>Dialect converter (sh_to_starward.py)\<close>

text \<open>The key \<open>extra\<close> of \<open>rec_kwargs\<close>: present only when the source record's \<open>extra\<close> is a
  non-empty dictionary.\<close>

definition rec_kwargs_extra :: "SnapHutaoRecord \<Rightarrow> (ustring \<times> json) list option" where
  "rec_kwargs_extra srec = (if sh_extra srec \<noteq> [] then Some (sh_extra srec) else None)"

text \<open>The body of the inner loop of \<open>convert_snap_hutao_to_starward\<close>: the lookup, the check
  that raises, and the record built from \<open>rec_kwargs\<close> (a missing \<open>extra\<close> takes the default
  \<open>{}\<close> of \<open>StarwardRecord\<close>).\<close>

definition convert_record ::
  "StarwardMetaDB \<Rightarrow> ustring \<Rightarrow> SnapHutaoRecord \<Rightarrow> error + StarwardRecord" where
  "convert_record sw_meta_db uid srec =
     (let iid = sh_item_id srec;
          meta = (case iid of None \<Rightarrow> None | Some i \<Rightarrow> get sw_meta_db i)
      in case meta of
           None \<Rightarrow> Inl (RuntimeError (MetaNotFound iid))
         | Some m \<Rightarrow>
             if item_type m = None \<or> rank_type m = None
             then Inl (RuntimeError (MetaNotFound iid))
             else Inr \<lparr>sw_uigf_gacha_type = sh_uigf_gacha_type srec,
                       sw_uid = Some uid,
                       sw_id = sh_id srec,
                       sw_gacha_type = sh_gacha_type srec,
                       sw_name = Some (name m),
                       sw_item_type = item_type m,
                       sw_rank_type = rank_type m,
                       sw_time = sh_time srec,
                       sw_item_id = sh_item_id srec,
                       sw_count = Some (u ''1''),
                       sw_lang = Some (u ''zh-cn''),
                       sw_extra = (case rec_kwargs_extra srec of None \<Rightarrow> [] | Some e \<Rightarrow> e),
                       sw_undeclared = []\<rparr>)"

text \<open>The inner loop: records are appended in order, the first failing record raises.\<close>

fun convert_list ::
  "StarwardMetaDB \<Rightarrow> ustring \<Rightarrow> SnapHutaoRecord list \<Rightarrow> error + StarwardRecord list" where
  "convert_list sw_meta_db uid [] = Inr []"
| "convert_list sw_meta_db uid (srec # rest) =
     (case convert_record sw_meta_db uid srec of
        Inl e \<Rightarrow> Inl e
      | Inr r \<Rightarrow>
          (case convert_list sw_meta_db uid rest of
             Inl e \<Rightarrow> Inl e
           | Inr rs \<Rightarrow> Inr (r # rs)))"

text \<open>The outer loop, one bundle per user.\<close>

fun convert_users ::
  "StarwardMetaDB \<Rightarrow> SnapHutaoUserBundle list \<Rightarrow> error + StarwardUserBundle list" where
  "convert_users sw_meta_db [] = Inr []"
| "convert_users sw_meta_db (user # rest) =
     (case convert_list sw_meta_db (shb_uid user) (shb_list user) of
        Inl e \<Rightarrow> Inl e
      | Inr rs \<Rightarrow>
          (case convert_users sw_meta_db rest of
             Inl e \<Rightarrow> Inl e
           | Inr bs \<Rightarrow>
               Inr (\<lparr>swb_uid = shb_uid user, swb_timezone = shb_timezone user,
                     swb_lang = Some (u ''zh-cn''), swb_list = rs\<rparr> # bs)))"

definition convert_snap_hutao_to_starward ::
  "SnapHutaoUIGF \<Rightarrow> StarwardMetaDB \<Rightarrow> error + StarwardUIGF" where
  "convert_snap_hutao_to_starward snap_uigf sw_meta_db =
     (let export_info =
            AList.update (u ''export_app'') (JStr (u ''Converted from Snap Hutao''))
              (shd_info snap_uigf)
      in case convert_users sw_meta_db (shd_hk4e snap_uigf) of
           Inl e \<Rightarrow> Inl e
         | Inr bs \<Rightarrow>
             Inr \<lparr>swd_info = export_info, swd_hk4e = bs,
                   swd_hkrpg = Some [], swd_nap = Some []\<rparr>)"

section \<open>Reading the input files\<close>

text \<open>
  The readers are modelled from the value \<open>json.load\<close> returned on; opening the file and
  parsing its text are outside the model. Validation collects the failures of all fields
  into one \<open>ValidationError\<close>, so only whether it fails is modelled.
\<close>

definition and_then :: "error + 'a \<Rightarrow> ('a \<Rightarrow> error + 'b) \<Rightarrow> error + 'b" where
  "and_then r f = (case r of Inl e \<Rightarrow> Inl e | Inr x \<Rightarrow> f x)"

fun validate_list :: "('a \<Rightarrow> error + 'b) \<Rightarrow> 'a list \<Rightarrow> error + 'b list" where
  "validate_list f [] = Inr []"
| "validate_list f (x # xs) =
     (case f x of
        Inl e \<Rightarrow> Inl e
      | Inr y \<Rightarrow> (case validate_list f xs of Inl e \<Rightarrow> Inl e | Inr ys \<Rightarrow> Inr (y # ys)))"

text \<open>A field \<open>Optional[str] = None\<close>: absent or \<open>null\<close> gives \<open>None\<close>, a string is taken as it
  is, anything else is refused (numbers are not turned into strings).\<close>

fun opt_str :: "json option \<Rightarrow> error + ustring option" where
  "opt_str None = Inr None"
| "opt_str (Some JNull) = Inr None"
| "opt_str (Some (JStr s)) = Inr (Some s)"
| "opt_str (Some _) = Inl ValidationError"

text \<open>A required field \<open>str\<close>: it must be present and a string; no length is asked for.\<close>

fun req_str :: "json option \<Rightarrow> error + ustring" where
  "req_str (Some (JStr s)) = Inr s"
| "req_str _ = Inl ValidationError"

text \<open>A field \<open>Optional[int] = None\<close>. Which values other than an integer are accepted as
  one is decided by the validation library; that coercion is the parameter \<open>lax_int\<close>.\<close>

fun opt_int :: "(json \<Rightarrow> int option) \<Rightarrow> json option \<Rightarrow> error + int option" where
  "opt_int lax_int None = Inr None"
| "opt_int lax_int (Some JNull) = Inr None"
| "opt_int lax_int (Some (JInt i)) = Inr (Some i)"
| "opt_int lax_int (Some j) =
     (case lax_int j of None \<Rightarrow> Inl ValidationError | Some i \<Rightarrow> Inr (Some i))"

text \<open>A required field \<open>Dict[str, Any]\<close>, and one with \<open>default_factory=dict\<close>.\<close>

fun req_dict :: "json option \<Rightarrow> error + (ustring \<times> json) list" where
  "req_dict (Some (JObj d)) = Inr d"
| "req_dict _ = Inl ValidationError"

fun default_dict :: "json option \<Rightarrow> error + (ustring \<times> json) list" where
  "default_dict None = Inr []"
| "default_dict (Some (JObj d)) = Inr d"
| "default_dict (Some _) = Inl ValidationError"

text \<open>A field \<open>List[T]\<close> with \<open>default_factory=list\<close>: absent gives the empty list.\<close>

fun default_list :: "(json \<Rightarrow> error + 'a) \<Rightarrow> json option \<Rightarrow> error + 'a list" where
  "default_list f None = Inr []"
| "default_list f (Some (JArr xs)) = validate_list f xs"
| "default_list f (Some _) = Inl ValidationError"

text \<open>A field \<open>Optional[List[Any]] = None\<close>.\<close>

fun opt_list_any :: "json option \<Rightarrow> error + json list option" where
  "opt_list_any None = Inr None"
| "opt_list_any (Some JNull) = Inr None"
| "opt_list_any (Some (JArr xs)) = Inr (Some xs)"
| "opt_list_any (Some _) = Inl ValidationError"

definition undeclared :: "ustring list \<Rightarrow> (ustring \<times> json) list \<Rightarrow> (ustring \<times> json) list" where
  "undeclared declared d = filter (\<lambda>(k, v). k \<notin> set declared) d"

definition SnapHutaoRecord_validate :: "json \<Rightarrow> error + SnapHutaoRecord" where
  "SnapHutaoRecord_validate j =
     (case j of
        JObj d \<Rightarrow>
          and_then (opt_str (map_of d (u ''uigf_gacha_type''))) (\<lambda>f1.
          and_then (opt_str (map_of d (u ''gacha_type''))) (\<lambda>f2.
          and_then (opt_str (map_of d (u ''item_id''))) (\<lambda>f3.
          and_then (opt_str (map_of d (u ''time''))) (\<lambda>f4.
          and_then (opt_str (map_of d (u ''id''))) (\<lambda>f5.
          and_then (default_dict (map_of d (u ''extra''))) (\<lambda>f6.
            Inr \<lparr>sh_uigf_gacha_type = f1, sh_gacha_type = f2, sh_item_id = f3,
                 sh_time = f4, sh_id = f5, sh_extra = f6,
                 sh_undeclared =
                   undeclared [u ''uigf_gacha_type'', u ''gacha_type'', u ''item_id'',
                               u ''time'', u ''id'', u ''extra''] d\<rparr>))))))
      | _ \<Rightarrow> Inl ValidationError)"

definition SnapHutaoUserBundle_validate ::
  "(json \<Rightarrow> int option) \<Rightarrow> json \<Rightarrow> error + SnapHutaoUserBundle" where
  "SnapHutaoUserBundle_validate lax_int j =
     (case j of
        JObj d \<Rightarrow>
          and_then (req_str (map_of d (u ''uid''))) (\<lambda>f1.
          and_then (opt_int lax_int (map_of d (u ''timezone''))) (\<lambda>f2.
          and_then (default_list SnapHutaoRecord_validate (map_of d (u ''list''))) (\<lambda>f3.
            Inr \<lparr>shb_uid = f1, shb_timezone = f2, shb_list = f3\<rparr>)))
      | _ \<Rightarrow> Inl ValidationError)"

definition SnapHutaoUIGF_validate :: "(json \<Rightarrow> int option) \<Rightarrow> json \<Rightarrow> error + SnapHutaoUIGF" where
  "SnapHutaoUIGF_validate lax_int j =
     (case j of
        JObj d \<Rightarrow>
          and_then (req_dict (map_of d (u ''info''))) (\<lambda>f1.
          and_then (default_list (SnapHutaoUserBundle_validate lax_int) (map_of d (u ''hk4e'')))
            (\<lambda>f2. Inr \<lparr>shd_info = f1, shd_hk4e = f2\<rparr>))
      | _ \<Rightarrow> Inl ValidationError)"

text \<open>\<open>read_snap_hutao_uigf4\<close>: any failure of the validation is raised again as a
  \<open>RuntimeError\<close>.\<close>

definition read_snap_hutao_uigf4 :: "(json \<Rightarrow> int option) \<Rightarrow> json \<Rightarrow> error + SnapHutaoUIGF" where
  "read_snap_hutao_uigf4 lax_int data =
     (case SnapHutaoUIGF_validate lax_int data of
        Inl e \<Rightarrow> Inl (RuntimeError SnapHutaoInvalid)
      | Inr uigf \<Rightarrow> Inr uigf)"

definition StarwardRecord_validate :: "json \<Rightarrow> error + StarwardRecord" where
  "StarwardRecord_validate j =
     (case j of
        JObj d \<Rightarrow>
          and_then (opt_str (map_of d (u ''uigf_gacha_type''))) (\<lambda>f1.
          and_then (opt_str (map_of d (u ''uid''))) (\<lambda>f2.
          and_then (opt_str (map_of d (u ''id''))) (\<lambda>f3.
          and_then (opt_str (map_of d (u ''gacha_type''))) (\<lambda>f4.
          and_then (opt_str (map_of d (u ''name''))) (\<lambda>f5.
          and_then (opt_str (map_of d (u ''item_type''))) (\<lambda>f6.
          and_then (opt_str (map_of d (u ''rank_type''))) (\<lambda>f7.
          and_then (opt_str (map_of d (u ''time''))) (\<lambda>f8.
          and_then (opt_str (map_of d (u ''item_id''))) (\<lambda>f9.
          and_then (opt_str (map_of d (u ''count''))) (\<lambda>f10.
          and_then (opt_str (map_of d (u ''lang''))) (\<lambda>f11.
          and_then (default_dict (map_of d (u ''extra''))) (\<lambda>f12.
            Inr \<lparr>sw_uigf_gacha_type = f1, sw_uid = f2, sw_id = f3, sw_gacha_type = f4,
                 sw_name = f5, sw_item_type = f6, sw_rank_type = f7, sw_time = f8,
                 sw_item_id = f9, sw_count = f10, sw_lang = f11, sw_extra = f12,
                 sw_undeclared =
                   undeclared [u ''uigf_gacha_type'', u ''uid'', u ''id'', u ''gacha_type'',
                               u ''name'', u ''item_type'', u ''rank_type'', u ''time'',
                               u ''item_id'', u ''count'', u ''lang'', u ''extra''] d\<rparr>))))))))))))
      | _ \<Rightarrow> Inl ValidationError)"

definition StarwardUserBundle_validate ::
  "(json \<Rightarrow> int option) \<Rightarrow> json \<Rightarrow> error + StarwardUserBundle" where
  "StarwardUserBundle_validate lax_int j =
     (case j of
        JObj d \<Rightarrow>
          and_then (req_str (map_of d (u ''uid''))) (\<lambda>f1.
          and_then (opt_int lax_int (map_of d (u ''timezone''))) (\<lambda>f2.
          and_then (opt_str (map_of d (u ''lang''))) (\<lambda>f3.
          and_then (default_list StarwardRecord_validate (map_of d (u ''list''))) (\<lambda>f4.
            Inr \<lparr>swb_uid = f1, swb_timezone = f2, swb_lang = f3, swb_list = f4\<rparr>))))
      | _ \<Rightarrow> Inl ValidationError)"

definition StarwardUIGF_validate :: "(json \<Rightarrow> int option) \<Rightarrow> json \<Rightarrow> error + StarwardUIGF" where
  "StarwardUIGF_validate lax_int j =
     (case j of
        JObj d \<Rightarrow>
          and_then (req_dict (map_of d (u ''info''))) (\<lambda>f1.
          and_then (default_list (StarwardUserBundle_validate lax_int) (map_of d (u ''hk4e'')))
            (\<lambda>f2.
          and_then (opt_list_any (map_of d (u ''hkrpg''))) (\<lambda>f3.
          and_then (opt_list_any (map_of d (u ''nap''))) (\<lambda>f4.
            Inr \<lparr>swd_info = f1, swd_hk4e = f2, swd_hkrpg = f3, swd_nap = f4\<rparr>))))
      | _ \<Rightarrow> Inl ValidationError)"

definition read_starward_uigf4 :: "(json \<Rightarrow> int option) \<Rightarrow> json \<Rightarrow> error + StarwardUIGF" where
  "read_starward_uigf4 lax_int data =
     (case StarwardUIGF_validate lax_int data of
        Inl e \<Rightarrow> Inl (RuntimeError StarwardInvalid)
      | Inr uigf \<Rightarrow> Inr uigf)"

text \<open>\<open>StarwardMetaItem(**meta)\<close>: unpacking anything but a dictionary is a \<open>TypeError\<close>;
  keys that are not fields are ignored; \<open>name\<close> and \<open>item_id\<close> are required strings.\<close>

definition StarwardMetaItem_init :: "json \<Rightarrow> error + StarwardMetaItem" where
  "StarwardMetaItem_init meta =
     (case meta of
        JObj kw \<Rightarrow>
          and_then (req_str (map_of kw (u ''name''))) (\<lambda>f1.
          and_then (opt_str (map_of kw (u ''item_type''))) (\<lambda>f2.
          and_then (opt_str (map_of kw (u ''rank_type''))) (\<lambda>f3.
          and_then (req_str (map_of kw (u ''item_id''))) (\<lambda>f4.
            Inr \<lparr>name = f1, item_type = f2, rank_type = f3, item_id = f4\<rparr>))))
      | _ \<Rightarrow> Inl TypeError)"

text \<open>The loop of \<open>read_starward_meta_db\<close> over \<open>by_id.items()\<close>.\<close>

fun load_items :: "(ustring \<times> json) list \<Rightarrow> StarwardMetaDB \<Rightarrow> error + StarwardMetaDB" where
  "load_items [] db = Inr db"
| "load_items ((iid, meta) # rest) db =
     (case StarwardMetaItem_init meta of
        Inl e \<Rightarrow> Inl e
      | Inr m \<Rightarrow> load_items rest (AList.update iid m db))"

text \<open>\<open>read_starward_meta_db\<close> (the same in both scripts). \<open>data.get\<close> exists only on a
  dictionary, \<open>by_id.items\<close> likewise; a missing \<open>by_id\<close> takes the default \<open>{}\<close>.\<close>

definition read_starward_meta_db :: "json \<Rightarrow> error + StarwardMetaDB" where
  "read_starward_meta_db data =
     (case data of
        JObj d \<Rightarrow>
          (case (case map_of d (u ''by_id'') of None \<Rightarrow> JObj [] | Some v \<Rightarrow> v) of
             JObj by_id \<Rightarrow> load_items by_id []
           | _ \<Rightarrow> Inl AttributeError)
      | _ \<Rightarrow> Inl AttributeError)"

section \<open>Mapping importer (process_metadata.py)\<close>

text \<open>
  The mapping file is a JSON object from a display name to one id or to a list of ids.
  An id is a JSON integer or a JSON string; \<open>str\<close> of an integer is its decimal numeral, with
  a minus sign when negative, and \<open>str\<close> of a string is the string.
\<close>

datatype id_value = IdInt int | IdStr ustring

datatype mapping_value = Single id_value | Several "id_value list"

fun nat_digits :: "nat \<Rightarrow> ustring" where
  "nat_digits n = (if n < 10 then [48 + n] else nat_digits (n div 10) @ [48 + n mod 10])"

definition str_int :: "int \<Rightarrow> ustring" where
  "str_int i = (if i < 0 then 45 # nat_digits (nat (- i)) else nat_digits (nat i))"

fun str :: "id_value \<Rightarrow> ustring" where
  "str (IdInt i) = str_int i"
| "str (IdStr s) = s"

text \<open>The loop of \<open>UIGF_id_name_mapping\<close> over \<open>name_to_id.items()\<close>, filling \<open>id_to_name\<close>.\<close>

fun id_name_loop ::
  "(ustring \<times> mapping_value) list \<Rightarrow> (ustring \<times> ustring) list \<Rightarrow> (ustring \<times> ustring) list" where
  "id_name_loop [] id_to_name = id_to_name"
| "id_name_loop ((nm, ids) # rest) id_to_name =
     id_name_loop rest
       (case ids of
          Several l \<Rightarrow> fold (\<lambda>iid acc. AList.update (str iid) nm acc) l id_to_name
        | Single iid \<Rightarrow> AList.update (str iid) nm id_to_name)"

definition UIGF_id_name_mapping ::
  "(ustring \<times> mapping_value) list \<Rightarrow>
     (ustring \<times> ustring) list \<times> (ustring \<times> mapping_value) list" where
  "UIGF_id_name_mapping name_to_id = (id_name_loop name_to_id [], name_to_id)"

definition build_meta_db_from_mapping :: "(ustring \<times> mapping_value) list \<Rightarrow> StarwardMetaDB" where
  "build_meta_db_from_mapping mapping_file =
     fold (\<lambda>(iid, nm) db.
             AList.update iid \<lparr>name = nm, item_type = None, rank_type = None, item_id = iid\<rparr> db)
       (fst (UIGF_id_name_mapping mapping_file)) []"

section \<open>Completion resolver (process_metadata.py)\<close>

text \<open>
  \<open>str.isdigit\<close> and \<open>int\<close> belong to the interpreter, not to the scripts. What they need of
  it enters as a parameter: \<open>is_digit c\<close> says that the code point \<open>c\<close> is a digit for
  \<open>isdigit\<close> (Unicode numeric type Digit or Decimal); \<open>decimal c\<close> is the value of \<open>c\<close> as a
  decimal digit when it is one, which is what \<open>int\<close> accepts; \<open>max_str_digits\<close> is the
  interpreter's limit on the number of digits of a numeral that \<open>int\<close> converts
  (\<open>sys.get_int_max_str_digits()\<close>: 4300 by default, 0 for no limit, never between 1 and
  639; interpreters older than the limit behave as with 0).
\<close>

record interpreter =
  is_digit :: "nat \<Rightarrow> bool"
  decimal :: "nat \<Rightarrow> nat option"
  max_str_digits :: nat

text \<open>The Unicode tables on the code points below 256, with the default limit: the ASCII
  digits are decimal digits, and the superscripts two, three and one (178, 179, 185) are
  digits that are not decimal.\<close>

definition latin1 :: interpreter where
  "latin1 =
     \<lparr>is_digit = (\<lambda>c. (48 \<le> c \<and> c \<le> 57) \<or> c = 178 \<or> c = 179 \<or> c = 185),
      decimal = (\<lambda>c. if 48 \<le> c \<and> c \<le> 57 then Some (c - 48) else None),
      max_str_digits = 4300\<rparr>"

definition isdigit :: "interpreter \<Rightarrow> ustring \<Rightarrow> bool" where
  "isdigit ud s = (s \<noteq> [] \<and> list_all (is_digit ud) s)"

text \<open>The value of a string of decimal digits, most significant first; a character that
  is not a decimal digit is the \<open>ValueError\<close> of an invalid literal.\<close>

fun decimal_value :: "interpreter \<Rightarrow> ustring \<Rightarrow> int \<Rightarrow> error + int" where
  "decimal_value ud [] acc = Inr acc"
| "decimal_value ud (c # cs) acc =
     (case decimal ud c of
        None \<Rightarrow> Inl ValueError
      | Some d \<Rightarrow> decimal_value ud cs (10 * acc + int d))"

text \<open>\<open>int(k)\<close>, which the sort key applies only to strings that passed \<open>isdigit\<close> (so there
  is no sign, space or underscore to read). A numeral of more than 640 digits that
  exceeds a non-zero \<open>max_str_digits\<close> is refused with a \<open>ValueError\<close>, leading zeros
  counted; otherwise the value is that of the digits. Integers themselves are unbounded.\<close>

definition int_of_str :: "interpreter \<Rightarrow> ustring \<Rightarrow> error + int" where
  "int_of_str ud s =
     (if 640 < length s \<and> 0 < max_str_digits ud \<and> max_str_digits ud < length s
      then Inl ValueError
      else decimal_value ud s 0)"

text \<open>The sort key \<open>_key\<close>. Python compares the tuples \<open>(0, int(k))\<close> and \<open>(1, str(k))\<close> by their
  first component and then, between two tuples with the same first component, by the
  second; the triple below, ordered lexicographically, has the same order.\<close>

definition key :: "interpreter \<Rightarrow> ustring \<Rightarrow> error + (nat \<times> int \<times> ustring)" where
  "key ud k =
     (if isdigit ud k
      then (case int_of_str ud k of Inl e \<Rightarrow> Inl e | Inr n \<Rightarrow> Inr (0, n, []))
      else Inr (1, 0, k))"

text \<open>The \<open>try\<close> block: \<open>sorted\<close> computes the key of every item and then sorts stably; when a
  key raises, the \<open>except\<close> branch takes the items in the dictionary's own order.\<close>

definition sorted_items :: "interpreter \<Rightarrow> StarwardMetaDB \<Rightarrow> StarwardMetaDB" where
  "sorted_items ud by_id =
     (if list_all (\<lambda>kv. \<not> isl (key ud (fst kv))) by_id
      then sort_key (\<lambda>kv. projr (key ud (fst kv))) by_id
      else by_id)"

text \<open>The list \<open>pending\<close> of \<open>prompt_missing_meta_fields\<close>.\<close>

definition pending :: "interpreter \<Rightarrow> StarwardMetaDB \<Rightarrow> StarwardMetaDB" where
  "pending ud sw_meta_db =
     filter (\<lambda>(iid, meta).
               \<not> (item_id meta = [] \<or> name meta = []) \<and>
               (\<not> truthy (item_type meta) \<or> \<not> truthy (rank_type meta)))
       (sorted_items ud sw_meta_db)"

definition ITEM_TYPES :: "ustring list" where
  "ITEM_TYPES = [[27494, 22120], [35282, 33394]]"

definition RANK_CHOICES :: "ustring list" where
  "RANK_CHOICES = [u ''1'', u ''2'', u ''3'', u ''4'', u ''5'']"

text \<open>
  The wizard holds the pending list and an index into it. Each \<open>meta\<close> of the list is the
  very object stored in the dictionary, so writing a field of it is seen in the store;
  \<open>store_after\<close> reads the store back from the list. The window is open until it is
  destroyed, after which no further event arrives.
\<close>

record MetaFillWizard =
  items :: "(ustring \<times> StarwardMetaItem) list"
  index :: nat
  window_open :: bool

text \<open>\<open>save_current\<close>, with the values the two selection boxes hold when it runs.\<close>

definition save_current :: "MetaFillWizard \<Rightarrow> ustring \<Rightarrow> ustring \<Rightarrow> error + MetaFillWizard" where
  "save_current w var_type var_rank =
     (if index w < length (items w) then
        let (iid, meta) = items w ! index w;
            meta1 = (if \<not> truthy (item_type meta) then meta\<lparr>item_type := Some var_type\<rparr>
                     else meta);
            meta2 = (if \<not> truthy (rank_type meta1) then meta1\<lparr>rank_type := Some var_rank\<rparr>
                     else meta1)
        in Inr (w\<lparr>items := (items w)[index w := (iid, meta2)]\<rparr>)
      else Inl IndexError)"

text \<open>\<open>load_current\<close> only fills the widgets from \<open>items[index]\<close>.\<close>

definition load_current :: "MetaFillWizard \<Rightarrow> error + MetaFillWizard" where
  "load_current w = (if index w < length (items w) then Inr w else Inl IndexError)"

definition on_finish :: "MetaFillWizard \<Rightarrow> error + MetaFillWizard" where
  "on_finish w = Inr (w\<lparr>window_open := False\<rparr>)"

definition on_prev :: "MetaFillWizard \<Rightarrow> error + MetaFillWizard" where
  "on_prev w = (if index w > 0 then load_current (w\<lparr>index := index w - 1\<rparr>) else Inr w)"

definition on_skip :: "MetaFillWizard \<Rightarrow> error + MetaFillWizard" where
  "on_skip w =
     (if int (index w) < int (length (items w)) - 1
      then load_current (w\<lparr>index := index w + 1\<rparr>)
      else Inr w)"

definition on_save_next :: "MetaFillWizard \<Rightarrow> ustring \<Rightarrow> ustring \<Rightarrow> error + MetaFillWizard" where
  "on_save_next w var_type var_rank =
     and_then (save_current w var_type var_rank) (\<lambda>w'.
       if int (index w') < int (length (items w')) - 1
       then load_current (w'\<lparr>index := index w' + 1\<rparr>)
       else on_finish w')"

text \<open>\<open>on_cancel\<close>, with the answer to its confirmation box.\<close>

definition on_cancel :: "MetaFillWizard \<Rightarrow> bool \<Rightarrow> error + MetaFillWizard" where
  "on_cancel w confirmed = (if confirmed then Inr (w\<lparr>window_open := False\<rparr>) else Inr w)"

datatype event = Prev | Skip | SaveNext ustring ustring | Finish | Cancel bool

fun handle :: "MetaFillWizard \<Rightarrow> event \<Rightarrow> error + MetaFillWizard" where
  "handle w Prev = on_prev w"
| "handle w Skip = on_skip w"
| "handle w (SaveNext var_type var_rank) = on_save_next w var_type var_rank"
| "handle w Finish = on_finish w"
| "handle w (Cancel confirmed) = on_cancel w confirmed"

text \<open>\<open>mainloop\<close>: events are handled one after the other while the window is open.\<close>

fun mainloop :: "MetaFillWizard \<Rightarrow> event list \<Rightarrow> error + MetaFillWizard" where
  "mainloop w [] = Inr w"
| "mainloop w (e # es) =
     (if window_open w
      then (case handle w e of Inl err \<Rightarrow> Inl err | Inr w' \<Rightarrow> mainloop w' es)
      else Inr w)"

definition store_after :: "StarwardMetaDB \<Rightarrow> (ustring \<times> StarwardMetaItem) list \<Rightarrow> StarwardMetaDB" where
  "store_after by_id its =
     map (\<lambda>(k, m). case map_of its k of None \<Rightarrow> (k, m) | Some m' \<Rightarrow> (k, m')) by_id"

text \<open>\<open>prompt_missing_meta_fields\<close> as it runs (\<open>tk\<close> is the imported module, never \<open>None\<close>):
  nothing to do when nothing is pending, else the wizard from the first pending entry.\<close>

definition prompt_missing_meta_fields ::
  "interpreter \<Rightarrow> StarwardMetaDB \<Rightarrow> event list \<Rightarrow> error + StarwardMetaDB" where
  "prompt_missing_meta_fields ud sw_meta_db events =
     (let p = pending ud sw_meta_db in
      if p = [] then Inr sw_meta_db
      else (case mainloop \<lparr>items = p, index = 0, window_open = True\<rparr> events of
              Inl err \<Rightarrow> Inl err
            | Inr w \<Rightarrow> Inr (store_after sw_meta_db (items w))))"

text \<open>
  The command-line fallback after the wizard. The answers are the lines typed, already
  stripped; running out of them is the \<open>EOFError\<close> of \<open>input\<close>. Each question is asked
  again until the answer is empty (skip) or one of the choices. What was written before
  an error stays written, so the entry is returned beside the error.
\<close>

fun ask_item_type :: "ustring list \<Rightarrow> (error + ustring option) \<times> ustring list" where
  "ask_item_type [] = (Inl EOFError, [])"
| "ask_item_type (v # rest) =
     (if v = [] then (Inr None, rest)
      else if v = u ''1'' then (Inr (Some [27494, 22120]), rest)
      else if v = u ''2'' then (Inr (Some [35282, 33394]), rest)
      else ask_item_type rest)"

fun ask_rank_type :: "ustring list \<Rightarrow> (error + ustring option) \<times> ustring list" where
  "ask_rank_type [] = (Inl EOFError, [])"
| "ask_rank_type (v # rest) =
     (if v = [] then (Inr None, rest)
      else if v \<in> set RANK_CHOICES then (Inr (Some v), rest)
      else ask_rank_type rest)"

definition cli_entry ::
  "StarwardMetaItem \<Rightarrow> ustring list \<Rightarrow> StarwardMetaItem \<times> ustring list \<times> error option" where
  "cli_entry meta answers =
     (let (meta1, answers1, err1) =
            (if \<not> truthy (item_type meta) then
               (case ask_item_type answers of
                  (Inl e, r) \<Rightarrow> (meta, r, Some e)
                | (Inr None, r) \<Rightarrow> (meta, r, None)
                | (Inr (Some v), r) \<Rightarrow> (meta\<lparr>item_type := Some v\<rparr>, r, None))
             else (meta, answers, None))
      in if err1 \<noteq> None then (meta1, answers1, err1)
         else if \<not> truthy (rank_type meta1) then
           (case ask_rank_type answers1 of
              (Inl e, r) \<Rightarrow> (meta1, r, Some e)
            | (Inr None, r) \<Rightarrow> (meta1, r, None)
            | (Inr (Some v), r) \<Rightarrow> (meta1\<lparr>rank_type := Some v\<rparr>, r, None))
         else (meta1, answers1, None))"

fun cli_loop ::
  "(ustring \<times> StarwardMetaItem) list \<Rightarrow> ustring list \<Rightarrow>
     (ustring \<times> StarwardMetaItem) list \<times> error option" where
  "cli_loop [] answers = ([], None)"
| "cli_loop ((iid, meta) # rest) answers =
     (case cli_entry meta answers of
        (meta', answers', Some e) \<Rightarrow> ((iid, meta') # rest, Some e)
      | (meta', answers', None) \<Rightarrow>
          (case cli_loop rest answers' of (rest', err) \<Rightarrow> ((iid, meta') # rest', err)))"

section \<open>Notions used in the proofs\<close>

text \<open>\<open>keeps e e'\<close>: every field of \<open>e\<close> that is filled has the same value in \<open>e'\<close>.\<close>

definition keeps :: "StarwardMetaItem \<Rightarrow> StarwardMetaItem \<Rightarrow> bool" where
  "keeps e e' =
     ((name e \<noteq> [] \<longrightarrow> name e' = name e) \<and>
      (truthy (item_type e) \<longrightarrow> item_type e' = item_type e) \<and>
      (truthy (rank_type e) \<longrightarrow> rank_type e' = rank_type e) \<and>
      item_id e' = item_id e)"

text \<open>\<open>saturated db iid s\<close>: the store has an entry under \<open>iid\<close> to which \<open>s\<close> has nothing
  left to give.\<close>

definition saturated :: "StarwardMetaDB \<Rightarrow> ustring \<Rightarrow> StarwardMetaItem \<Rightarrow> bool" where
  "saturated db iid s =
     (case map_of db iid of
        None \<Rightarrow> False
      | Some t \<Rightarrow>
          (name t \<noteq> [] \<or> name s = []) \<and>
          (truthy (item_type t) \<or> \<not> truthy (item_type s)) \<and>
          (truthy (rank_type t) \<or> \<not> truthy (rank_type s)))"

text \<open>\<open>resolved db srec\<close>: the check of the converter passes for \<open>srec\<close>, that is, the
  record has an item id, the store has an entry under it, and neither \<open>item_type\<close> nor
  \<open>rank_type\<close> of the entry is \<open>None\<close>.\<close>

definition resolved :: "StarwardMetaDB \<Rightarrow> SnapHutaoRecord \<Rightarrow> bool" where
  "resolved db srec =
     (case sh_item_id srec of
        None \<Rightarrow> False
      | Some i \<Rightarrow> (case get db i of
                    None \<Rightarrow> False
                  | Some m \<Rightarrow> item_type m \<noteq> None \<and> rank_type m \<noteq> None))"

text \<open>The record and the bundle the converter builds when the check passes.\<close>

definition unified :: "StarwardMetaDB \<Rightarrow> ustring \<Rightarrow> SnapHutaoRecord \<Rightarrow> StarwardRecord" where
  "unified db uid srec =
     (let m = the (get db (the (sh_item_id srec))) in
      \<lparr>sw_uigf_gacha_type = sh_uigf_gacha_type srec, sw_uid = Some uid, sw_id = sh_id srec,
       sw_gacha_type = sh_gacha_type srec, sw_name = Some (name m),
       sw_item_type = item_type m, sw_rank_type = rank_type m, sw_time = sh_time srec,
       sw_item_id = sh_item_id srec, sw_count = Some (u ''1''), sw_lang = Some (u ''zh-cn''),
       sw_extra = sh_extra srec, sw_undeclared = []\<rparr>)"

definition unified_bundle :: "StarwardMetaDB \<Rightarrow> SnapHutaoUserBundle \<Rightarrow> StarwardUserBundle" where
  "unified_bundle db user =
     \<lparr>swb_uid = shb_uid user, swb_timezone = shb_timezone user,
      swb_lang = Some (u ''zh-cn''),
      swb_list = map (unified db (shb_uid user)) (shb_list user)\<rparr>"

text \<open>
  The shape of a store file as the specification gives it: an object whose field \<open>by_id\<close>,
  when present, is an object from item ids to entries, an entry being an object with the
  strings \<open>name\<close> and \<open>item_id\<close> and with \<open>item_type\<close> and \<open>rank_type\<close> each a string,
  \<open>null\<close> or absent.
\<close>

fun str_or_null :: "json option \<Rightarrow> bool" where
  "str_or_null None = True"
| "str_or_null (Some JNull) = True"
| "str_or_null (Some (JStr s)) = True"
| "str_or_null (Some _) = False"

fun is_str :: "json option \<Rightarrow> bool" where
  "is_str (Some (JStr s)) = True"
| "is_str _ = False"

definition entry_shape :: "json \<Rightarrow> bool" where
  "entry_shape v =
     (case v of
        JObj kw \<Rightarrow>
          is_str (map_of kw (u ''name'')) \<and> str_or_null (map_of kw (u ''item_type'')) \<and>
          str_or_null (map_of kw (u ''rank_type'')) \<and> is_str (map_of kw (u ''item_id''))
      | _ \<Rightarrow> False)"

definition store_shape :: "json \<Rightarrow> bool" where
  "store_shape data =
     (case data of
        JObj d \<Rightarrow>
          (case map_of d (u ''by_id'') of
             None \<Rightarrow> True
           | Some (JObj by_id) \<Rightarrow> list_all (\<lambda>kv. entry_shape (snd kv)) by_id
           | Some _ \<Rightarrow> False)
      | _ \<Rightarrow> False)"

text \<open>The coercion that takes nothing but an integer for an integer.\<close>

definition only_integers :: "json \<Rightarrow> int option" where
  "only_integers j = None"

text \<open>The ids a value of the mapping lists, the strings they give, and one turn of the
  loop of \<open>UIGF_id_name_mapping\<close>.\<close>

fun ids_of :: "mapping_value \<Rightarrow> id_value list" where
  "ids_of (Single i) = [i]"
| "ids_of (Several l) = l"

definition listed :: "(ustring \<times> mapping_value) list \<Rightarrow> ustring set" where
  "listed m = (\<Union>p \<in> set m. str ` set (ids_of (snd p)))"

definition id_name_step ::
  "ustring \<Rightarrow> mapping_value \<Rightarrow> (ustring \<times> ustring) list \<Rightarrow> (ustring \<times> ustring) list" where
  "id_name_step nm ids acc = fold (\<lambda>iid acc. AList.update (str iid) nm acc) (ids_of ids) acc"

text \<open>The test of the loop that fills \<open>pending\<close>, and the stores on which no sort key
  raises: every key that passes \<open>isdigit\<close> is read by \<open>int\<close>.\<close>

definition incomplete :: "ustring \<times> StarwardMetaItem \<Rightarrow> bool" where
  "incomplete kv =
     (item_id (snd kv) \<noteq> [] \<and> name (snd kv) \<noteq> [] \<and>
      (\<not> truthy (item_type (snd kv)) \<or> \<not> truthy (rank_type (snd kv))))"

definition readable :: "interpreter \<Rightarrow> StarwardMetaDB \<Rightarrow> bool" where
  "readable ud db = list_all (\<lambda>kv. isdigit ud (fst kv) \<longrightarrow> \<not> isl (int_of_str ud (fst kv))) db"

text \<open>\<open>kept_all its its'\<close>: the two lists hold the same keys in the same order, and each
  entry of the second has the name of its counterpart and keeps its filled fields.\<close>

definition kept_all ::
  "(ustring \<times> StarwardMetaItem) list \<Rightarrow> (ustring \<times> StarwardMetaItem) list \<Rightarrow> bool" where
  "kept_all its its' =
     list_all2 (\<lambda>a b. fst b = fst a \<and> name (snd b) = name (snd a) \<and> keeps (snd a) (snd b))
       its its'"

section \<open>The fill-only rule of the merge engine\<close>

lemma keeps_refl: "keeps e e"
  by (simp add: keeps_def)

lemma keeps_trans: "keeps a b \<Longrightarrow> keeps b c \<Longrightarrow> keeps a c"
  by (auto simp: keeps_def)

lemma merge_entry_keeps:
  assumes "map_of db k = Some e"
  shows "\<exists>e'. map_of (merge_entry db iid s) k = Some e' \<and> keeps e e'"
  using assms
  by (auto simp: merge_entry_def AList.update_conv' keeps_def Let_def split: option.splits)

lemma add_from_record_keeps:
  assumes "map_of db k = Some e"
  shows "\<exists>e'. map_of (add_from_record db r) k = Some e' \<and> keeps e e'"
  using assms
  by (auto simp: add_from_record_def AList.update_conv' keeps_def Let_def split: option.splits)

lemma merge_meta_db_keeps:
  "map_of db k = Some e \<Longrightarrow> \<exists>e'. map_of (merge_meta_db db src) k = Some e' \<and> keeps e e'"
proof (induction src arbitrary: db e)
  case Nil
  then show ?case by (auto intro: keeps_refl)
next
  case (Cons p src)
  obtain iid s where p: "p = (iid, s)" by (cases p)
  from merge_entry_keeps[OF Cons.prems, of iid s]
  obtain e1 where e1: "map_of (merge_entry db iid s) k = Some e1" "keeps e e1" by blast
  from Cons.IH[OF e1(1)] obtain e2 where
    "map_of (merge_meta_db (merge_entry db iid s) src) k = Some e2" "keeps e1 e2" by blast
  with e1 p show ?case by (auto intro: keeps_trans)
qed

lemma apply_op_keeps:
  "map_of db k = Some e \<Longrightarrow> \<exists>e'. map_of (apply_op db x) k = Some e' \<and> keeps e e'"
  by (cases x) (simp_all add: merge_meta_db_keeps add_from_record_keeps)

lemma apply_ops_keeps:
  "map_of db k = Some e \<Longrightarrow> \<exists>e'. map_of (apply_ops db xs) k = Some e' \<and> keeps e e'"
proof (induction xs arbitrary: db e)
  case Nil
  then show ?case by (auto intro: keeps_refl)
next
  case (Cons x xs)
  from apply_op_keeps[OF Cons.prems, of x]
  obtain e1 where e1: "map_of (apply_op db x) k = Some e1" "keeps e e1" by blast
  from Cons.IH[OF e1(1)] obtain e2 where
    "map_of (apply_ops (apply_op db x) xs) k = Some e2" "keeps e1 e2" by blast
  with e1 show ?case by (auto intro: keeps_trans)
qed

text \<open>
  C2. Take any entry \<open>e\<close> stored under a key \<open>k\<close> and any sequence of merges and record
  fills. Afterwards the store still has an entry under \<open>k\<close>, and each of its fields
  \<open>name\<close>, \<open>item_type\<close> and \<open>rank_type\<close> that was non-empty in \<open>e\<close> has the value it had in
  \<open>e\<close>, whatever the sources offered.
\<close>

theorem fill_only_invariant:
  assumes "map_of db k = Some e"
  shows "\<exists>e'. map_of (apply_ops db ops) k = Some e' \<and>
              (name e \<noteq> [] \<longrightarrow> name e' = name e) \<and>
              (truthy (item_type e) \<longrightarrow> item_type e' = item_type e) \<and>
              (truthy (rank_type e) \<longrightarrow> rank_type e' = rank_type e)"
  using apply_ops_keeps[OF assms, of ops] by (auto simp: keeps_def)

theorem fill_only_invariant_witness:
  "map_of [(u ''1'', \<lparr>name = u ''Sword'', item_type = Some [27494, 22120],
                      rank_type = Some (u ''4''), item_id = u ''1''\<rparr>)] (u ''1'')
     = Some \<lparr>name = u ''Sword'', item_type = Some [27494, 22120],
             rank_type = Some (u ''4''), item_id = u ''1''\<rparr> \<and>
   u ''Sword'' \<noteq> [] \<and> truthy (Some [27494, 22120]) \<and> truthy (Some (u ''4'')) \<and>
   (\<exists>e'. map_of
           (apply_ops
              [(u ''1'', \<lparr>name = u ''Sword'', item_type = Some [27494, 22120],
                          rank_type = Some (u ''4''), item_id = u ''1''\<rparr>)]
              [MergeFrom [(u ''1'', \<lparr>name = u ''Bow'', item_type = Some [35282, 33394],
                                     rank_type = Some (u ''5''), item_id = u ''1''\<rparr>)],
               AddRecord \<lparr>sw_uigf_gacha_type = None, sw_uid = None, sw_id = None,
                          sw_gacha_type = None, sw_name = Some (u ''Axe''),
                          sw_item_type = Some [35282, 33394], sw_rank_type = Some (u ''3''),
                          sw_time = None, sw_item_id = Some (u ''1''), sw_count = None,
                          sw_lang = None, sw_extra = [], sw_undeclared = []\<rparr>])
           (u ''1'') = Some e' \<and>
         name e' = u ''Sword'' \<and> item_type e' = Some [27494, 22120] \<and>
         rank_type e' = Some (u ''4''))"
  using fill_only_invariant
    [of "[(u ''1'', \<lparr>name = u ''Sword'', item_type = Some [27494, 22120],
                     rank_type = Some (u ''4''), item_id = u ''1''\<rparr>)]"
        "u ''1''"
        "\<lparr>name = u ''Sword'', item_type = Some [27494, 22120],
          rank_type = Some (u ''4''), item_id = u ''1''\<rparr>"
        "[MergeFrom [(u ''1'', \<lparr>name = u ''Bow'', item_type = Some [35282, 33394],
                                rank_type = Some (u ''5''), item_id = u ''1''\<rparr>)],
          AddRecord \<lparr>sw_uigf_gacha_type = None, sw_uid = None, sw_id = None,
                     sw_gacha_type = None, sw_name = Some (u ''Axe''),
                     sw_item_type = Some [35282, 33394], sw_rank_type = Some (u ''3''),
                     sw_time = None, sw_item_id = Some (u ''1''), sw_count = None,
                     sw_lang = None, sw_extra = [], sw_undeclared = []\<rparr>]"]
  by (simp add: truthy_def u_def)

section \<open>Merging twice\<close>

lemma merge_entry_saturated_id: "saturated db iid s \<Longrightarrow> merge_entry db iid s = db"
  by (auto simp: saturated_def merge_entry_def Let_def AList.update_triv split: option.splits)

lemma merge_entry_saturates: "saturated (merge_entry db iid s) iid s"
  by (auto simp: saturated_def merge_entry_def Let_def AList.update_conv' or_empty_def
           split: option.splits)

lemma keeps_saturated:
  "map_of db k = Some t \<Longrightarrow> map_of db' k = Some t' \<Longrightarrow> keeps t t' \<Longrightarrow>
   saturated db k s \<Longrightarrow> saturated db' k s"
  by (auto simp: saturated_def keeps_def)

lemma merge_meta_db_pres_saturated:
  assumes "saturated db k s"
  shows "saturated (merge_meta_db db src) k s"
proof -
  from assms obtain t where t: "map_of db k = Some t"
    by (auto simp: saturated_def split: option.splits)
  from merge_meta_db_keeps[OF t, of src] obtain t' where
    "map_of (merge_meta_db db src) k = Some t'" "keeps t t'" by blast
  with t assms show ?thesis by (blast intro: keeps_saturated)
qed

lemma merge_meta_db_saturates:
  "(k, s) \<in> set src \<Longrightarrow> saturated (merge_meta_db db src) k s"
proof (induction src arbitrary: db)
  case Nil
  then show ?case by simp
next
  case (Cons p src)
  obtain iid s' where p: "p = (iid, s')" by (cases p)
  show ?case
  proof (cases "(k, s) = p")
    case True
    with p have "saturated (merge_entry db iid s') k s" by (simp add: merge_entry_saturates)
    then show ?thesis using p by (simp add: merge_meta_db_pres_saturated)
  next
    case False
    with Cons.prems have "(k, s) \<in> set src" by simp
    then show ?thesis using p Cons.IH by simp
  qed
qed

lemma merge_meta_db_saturated_id:
  "(\<And>k s. (k, s) \<in> set src \<Longrightarrow> saturated db k s) \<Longrightarrow> merge_meta_db db src = db"
proof (induction src)
  case Nil
  then show ?case by simp
next
  case (Cons p src)
  obtain iid s where p: "p = (iid, s)" by (cases p)
  with Cons.prems have "saturated db iid s" by simp
  then have "merge_entry db iid s = db" by (rule merge_entry_saturated_id)
  then show ?case using p Cons by simp
qed

text \<open>
  C3. Merging a source store into a target a second time changes nothing: the store after
  two merges is the store after one, entry for entry and in the same order.
\<close>

theorem merge_meta_db_idempotent:
  "merge_meta_db (merge_meta_db T S) S = merge_meta_db T S"
  by (rule merge_meta_db_saturated_id) (rule merge_meta_db_saturates)

section \<open>The converter\<close>

lemma convert_record_resolved:
  "resolved db srec \<Longrightarrow> convert_record db uid srec = Inr (unified db uid srec)"
  by (auto simp: resolved_def convert_record_def unified_def rec_kwargs_extra_def Let_def
           split: option.splits)

lemma convert_record_unresolved:
  "\<not> resolved db srec \<Longrightarrow>
   convert_record db uid srec = Inl (RuntimeError (MetaNotFound (sh_item_id srec)))"
  by (auto simp: resolved_def convert_record_def Let_def split: option.splits)

lemma convert_list_resolved:
  "list_all (resolved db) l \<Longrightarrow> convert_list db uid l = Inr (map (unified db uid) l)"
  by (induction l) (simp_all add: convert_record_resolved)

lemma convert_list_unresolved:
  "\<not> list_all (resolved db) l \<Longrightarrow>
   \<exists>srec \<in> set l. \<not> resolved db srec \<and>
      convert_list db uid l = Inl (RuntimeError (MetaNotFound (sh_item_id srec)))"
proof (induction l)
  case Nil
  then show ?case by simp
next
  case (Cons a l)
  show ?case
  proof (cases "resolved db a")
    case True
    with Cons.prems have "\<not> list_all (resolved db) l" by simp
    from Cons.IH[OF this] obtain srec where
      "srec \<in> set l" "\<not> resolved db srec"
      "convert_list db uid l = Inl (RuntimeError (MetaNotFound (sh_item_id srec)))" by blast
    with True show ?thesis
      by (intro bexI[of _ srec]) (simp_all add: convert_record_resolved)
  next
    case False
    then show ?thesis
      by (intro bexI[of _ a]) (simp_all add: convert_record_unresolved)
  qed
qed

lemma convert_users_resolved:
  "list_all (\<lambda>user. list_all (resolved db) (shb_list user)) us \<Longrightarrow>
   convert_users db us = Inr (map (unified_bundle db) us)"
  by (induction us) (simp_all add: convert_list_resolved unified_bundle_def)

lemma convert_users_unresolved:
  "\<not> list_all (\<lambda>user. list_all (resolved db) (shb_list user)) us \<Longrightarrow>
   \<exists>user \<in> set us. \<exists>srec \<in> set (shb_list user). \<not> resolved db srec \<and>
      convert_users db us = Inl (RuntimeError (MetaNotFound (sh_item_id srec)))"
proof (induction us)
  case Nil
  then show ?case by simp
next
  case (Cons a us)
  show ?case
  proof (cases "list_all (resolved db) (shb_list a)")
    case True
    with Cons.prems have "\<not> list_all (\<lambda>user. list_all (resolved db) (shb_list user)) us" by simp
    from Cons.IH[OF this] obtain user srec where
      "user \<in> set us" "srec \<in> set (shb_list user)" "\<not> resolved db srec"
      "convert_users db us = Inl (RuntimeError (MetaNotFound (sh_item_id srec)))" by blast
    with True show ?thesis
      by (intro bexI[of _ user] bexI[of _ srec]) (simp_all add: convert_list_resolved)
  next
    case False
    from convert_list_unresolved[OF this, of "shb_uid a"] obtain srec where
      "srec \<in> set (shb_list a)" "\<not> resolved db srec"
      "convert_list db (shb_uid a) (shb_list a) = Inl (RuntimeError (MetaNotFound (sh_item_id srec)))"
      by blast
    then show ?thesis
      by (intro bexI[of _ a] bexI[of _ srec]) simp_all
  qed
qed

lemma convert_resolved:
  "list_all (\<lambda>user. list_all (resolved db) (shb_list user)) (shd_hk4e doc) \<Longrightarrow>
   convert_snap_hutao_to_starward doc db =
     Inr \<lparr>swd_info = AList.update (u ''export_app'') (JStr (u ''Converted from Snap Hutao'')) (shd_info doc),
          swd_hk4e = map (unified_bundle db) (shd_hk4e doc),
          swd_hkrpg = Some [], swd_nap = Some []\<rparr>"
  by (simp add: convert_snap_hutao_to_starward_def convert_users_resolved)

text \<open>A record without item id, without store entry, or whose entry has \<open>None\<close> as
  \<open>item_type\<close> or \<open>rank_type\<close> makes the whole conversion raise, and the error names the item
  id of such a record; no document is returned.\<close>

lemma convert_unresolved:
  "\<not> list_all (\<lambda>user. list_all (resolved db) (shb_list user)) (shd_hk4e doc) \<Longrightarrow>
   \<exists>user \<in> set (shd_hk4e doc). \<exists>srec \<in> set (shb_list user). \<not> resolved db srec \<and>
     convert_snap_hutao_to_starward doc db = Inl (RuntimeError (MetaNotFound (sh_item_id srec)))"
proof -
  assume "\<not> list_all (\<lambda>user. list_all (resolved db) (shb_list user)) (shd_hk4e doc)"
  from convert_users_unresolved[OF this] obtain user srec where
    "user \<in> set (shd_hk4e doc)" "srec \<in> set (shb_list user)" "\<not> resolved db srec"
    "convert_users db (shd_hk4e doc) = Inl (RuntimeError (MetaNotFound (sh_item_id srec)))"
    by blast
  then show ?thesis
    by (intro bexI[of _ user] bexI[of _ srec]) (simp_all add: convert_snap_hutao_to_starward_def)
qed

lemma truthy_not_None: "truthy x \<Longrightarrow> x \<noteq> None"
  by (cases x) (auto simp: truthy_def)

lemma all_resolvedI:
  assumes "\<forall>user \<in> set us. \<forall>srec \<in> set (shb_list user).
             \<exists>i m. sh_item_id srec = Some i \<and> get db i = Some m \<and>
                   truthy (item_type m) \<and> truthy (rank_type m)"
  shows "list_all (\<lambda>user. list_all (resolved db) (shb_list user)) us"
  unfolding list_all_iff
proof (intro ballI)
  fix user srec assume "user \<in> set us" "srec \<in> set (shb_list user)"
  with assms obtain i m where "sh_item_id srec = Some i" "get db i = Some m"
    "truthy (item_type m)" "truthy (rank_type m)" by blast
  then show "resolved db srec"
    by (simp add: resolved_def truthy_not_None)
qed



text \<open>
  C10. The check of the converter does not look at the name of the store entry: in a
  document all of whose records have a store entry with \<open>item_type\<close> and \<open>rank_type\<close>
  filled, a record whose entry has the empty string as name is converted, and the record
  emitted for it has the empty string as name.
\<close>

theorem convert_emits_empty_name:
  assumes "\<forall>user \<in> set (shd_hk4e doc). \<forall>srec \<in> set (shb_list user).
             \<exists>i m. sh_item_id srec = Some i \<and> get db i = Some m \<and>
                   truthy (item_type m) \<and> truthy (rank_type m)"
    and "user \<in> set (shd_hk4e doc)" and "srec \<in> set (shb_list user)"
    and "sh_item_id srec = Some i" and "get db i = Some m" and "name m = []"
  shows "\<exists>out. convert_snap_hutao_to_starward doc db = Inr out \<and>
           (\<exists>b \<in> set (swd_hk4e out). \<exists>r \<in> set (swb_list b).
              sw_item_id r = Some i \<and> sw_name r = Some [] \<and>
              sw_item_type r = item_type m \<and> sw_rank_type r = rank_type m)"
proof -
  let ?out = "\<lparr>swd_info = AList.update (u ''export_app'') (JStr (u ''Converted from Snap Hutao'')) (shd_info doc),
          swd_hk4e = map (unified_bundle db) (shd_hk4e doc),
          swd_hkrpg = Some [], swd_nap = Some []\<rparr>"
  have 1: "convert_snap_hutao_to_starward doc db = Inr ?out"
    by (rule convert_resolved[OF all_resolvedI[OF assms(1)]])
  have 2: "unified_bundle db user \<in> set (swd_hk4e ?out)"
    using assms(2) by simp
  have 3: "unified db (shb_uid user) srec \<in> set (swb_list (unified_bundle db user))"
    using assms(3) by (simp add: unified_bundle_def)
  have 4: "sw_item_id (unified db (shb_uid user) srec) = Some i \<and>
           sw_name (unified db (shb_uid user) srec) = Some [] \<and>
           sw_item_type (unified db (shb_uid user) srec) = item_type m \<and>
           sw_rank_type (unified db (shb_uid user) srec) = rank_type m"
    using assms(4-6) by (simp add: unified_def)
  from 1 2 3 4 show ?thesis by blast
qed

theorem convert_emits_empty_name_witness:
  "get [(u ''10'', \<lparr>name = [], item_type = Some [27494, 22120],
                     rank_type = Some (u ''5''), item_id = u ''10''\<rparr>)] (u ''10'')
     = Some \<lparr>name = [], item_type = Some [27494, 22120],
             rank_type = Some (u ''5''), item_id = u ''10''\<rparr> \<and>
   truthy (Some [27494, 22120]) \<and> truthy (Some (u ''5'')) \<and>
   (\<exists>out. convert_snap_hutao_to_starward
      \<lparr>shd_info = [],
       shd_hk4e = [\<lparr>shb_uid = u ''100000001'', shb_timezone = None,
                    shb_list = [\<lparr>sh_uigf_gacha_type = None, sh_gacha_type = Some (u ''301''),
                                 sh_item_id = Some (u ''10''),
                                 sh_time = Some (u ''2024-01-01 00:00:00''), sh_id = None,
                                 sh_extra = [], sh_undeclared = []\<rparr>]\<rparr>]\<rparr>
      [(u ''10'', \<lparr>name = [], item_type = Some [27494, 22120],
                   rank_type = Some (u ''5''), item_id = u ''10''\<rparr>)] = Inr out \<and>
     (\<exists>b \<in> set (swd_hk4e out). \<exists>r \<in> set (swb_list b).
        sw_item_id r = Some (u ''10'') \<and> sw_name r = Some [] \<and>
        sw_item_type r = Some [27494, 22120] \<and> sw_rank_type r = Some (u ''5'')))"
  using convert_emits_empty_name
    [of "\<lparr>shd_info = [],
       shd_hk4e = [\<lparr>shb_uid = u ''100000001'', shb_timezone = None,
                    shb_list = [\<lparr>sh_uigf_gacha_type = None, sh_gacha_type = Some (u ''301''),
                                 sh_item_id = Some (u ''10''),
                                 sh_time = Some (u ''2024-01-01 00:00:00''), sh_id = None,
                                 sh_extra = [], sh_undeclared = []\<rparr>]\<rparr>]\<rparr>"
      "[(u ''10'', \<lparr>name = [], item_type = Some [27494, 22120],
                   rank_type = Some (u ''5''), item_id = u ''10''\<rparr>)]"
      "\<lparr>shb_uid = u ''100000001'', shb_timezone = None,
                    shb_list = [\<lparr>sh_uigf_gacha_type = None, sh_gacha_type = Some (u ''301''),
                                 sh_item_id = Some (u ''10''),
                                 sh_time = Some (u ''2024-01-01 00:00:00''), sh_id = None,
                                 sh_extra = [], sh_undeclared = []\<rparr>]\<rparr>"
      "\<lparr>sh_uigf_gacha_type = None, sh_gacha_type = Some (u ''301''),
                                 sh_item_id = Some (u ''10''),
                                 sh_time = Some (u ''2024-01-01 00:00:00''), sh_id = None,
                                 sh_extra = [], sh_undeclared = []\<rparr>"
      "u ''10''"
      "\<lparr>name = [], item_type = Some [27494, 22120],
             rank_type = Some (u ''5''), item_id = u ''10''\<rparr>"]
  by (simp add: get_def truthy_def u_def)

text \<open>
  C1. A store entry whose \<open>item_type\<close> is the empty string does not stop the conversion:
  for the store \<open>{"10": {name: "Aqua Simulacra", item_type: "", rank_type: "5"}}\<close> and a
  document with one record of item id 10, the converter returns a document whose record
  has the empty string as \<open>item_type\<close>. The check raises only for a missing item id, a
  missing entry and a field that is \<open>None\<close> (\<open>convert_unresolved\<close>).
\<close>

theorem convert_accepts_empty_item_type:
  "convert_snap_hutao_to_starward
      \<lparr>shd_info = [],
       shd_hk4e = [\<lparr>shb_uid = u ''100000001'', shb_timezone = None,
                    shb_list = [\<lparr>sh_uigf_gacha_type = None, sh_gacha_type = Some (u ''301''),
                                 sh_item_id = Some (u ''10''),
                                 sh_time = Some (u ''2024-01-01 00:00:00''), sh_id = None,
                                 sh_extra = [], sh_undeclared = []\<rparr>]\<rparr>]\<rparr>
      [(u ''10'', \<lparr>name = u ''Aqua Simulacra'', item_type = Some [],
                   rank_type = Some (u ''5''), item_id = u ''10''\<rparr>)]
   = Inr \<lparr>swd_info = [(u ''export_app'', JStr (u ''Converted from Snap Hutao''))],
          swd_hk4e =
            [\<lparr>swb_uid = u ''100000001'', swb_timezone = None, swb_lang = Some (u ''zh-cn''),
              swb_list =
                [\<lparr>sw_uigf_gacha_type = None, sw_uid = Some (u ''100000001''), sw_id = None,
                  sw_gacha_type = Some (u ''301''), sw_name = Some (u ''Aqua Simulacra''),
                  sw_item_type = Some [], sw_rank_type = Some (u ''5''),
                  sw_time = Some (u ''2024-01-01 00:00:00''), sw_item_id = Some (u ''10''),
                  sw_count = Some (u ''1''), sw_lang = Some (u ''zh-cn''), sw_extra = [],
                  sw_undeclared = []\<rparr>]\<rparr>],
          swd_hkrpg = Some [], swd_nap = Some []\<rparr>"
  by (simp add: convert_snap_hutao_to_starward_def convert_record_def get_def
        rec_kwargs_extra_def Let_def)

section \<open>Loading the store file\<close>

lemma opt_str_isl: "isl (opt_str x) \<longleftrightarrow> \<not> str_or_null x"
  by (induction x rule: opt_str.induct) simp_all

lemma req_str_isl: "isl (req_str x) \<longleftrightarrow> \<not> is_str x"
  by (induction x rule: req_str.induct) simp_all

lemma and_then_isl: "isl (and_then r f) \<longleftrightarrow> isl r \<or> (\<exists>x. r = Inr x \<and> isl (f x))"
  by (cases r) (simp_all add: and_then_def)

lemma opt_str_Inr: "opt_str x = Inr y \<Longrightarrow> str_or_null x"
  using opt_str_isl[of x] by simp

lemma opt_str_Inl: "opt_str x = Inl e \<Longrightarrow> \<not> str_or_null x"
  using opt_str_isl[of x] by simp

lemma req_str_Inr: "req_str x = Inr y \<Longrightarrow> is_str x"
  using req_str_isl[of x] by simp

lemma req_str_Inl: "req_str x = Inl e \<Longrightarrow> \<not> is_str x"
  using req_str_isl[of x] by simp

lemma StarwardMetaItem_init_isl: "isl (StarwardMetaItem_init v) \<longleftrightarrow> \<not> entry_shape v"
proof (cases v)
  case (JObj kw)
  show ?thesis
    unfolding JObj StarwardMetaItem_init_def entry_shape_def and_then_def
    by (auto split: sum.splits dest: opt_str_Inr opt_str_Inl req_str_Inr req_str_Inl)
qed (simp_all add: StarwardMetaItem_init_def entry_shape_def)

lemma load_items_isl:
  "isl (load_items es acc) \<longleftrightarrow> \<not> list_all (\<lambda>kv. entry_shape (snd kv)) es"
proof (induction es arbitrary: acc)
  case Nil
  then show ?case by simp
next
  case (Cons p es)
  obtain iid meta where p: "p = (iid, meta)" by (cases p)
  show ?case
  proof (cases "StarwardMetaItem_init meta")
    case (Inl e)
    with StarwardMetaItem_init_isl[of meta] p show ?thesis by simp
  next
    case (Inr m)
    with StarwardMetaItem_init_isl[of meta] p Cons.IH show ?thesis by simp
  qed
qed

text \<open>
  C9. \<open>read_starward_meta_db\<close> fails exactly when the value read from the file does not
  have the shape of a store file: the root is not an object, \<open>by_id\<close> is present and not an
  object, or an entry is not a well-formed entry. A root object without \<open>by_id\<close> is
  accepted and gives the empty store. (The failure is an \<open>AttributeError\<close>, a \<open>TypeError\<close>
  or a \<open>ValidationError\<close>.)
\<close>

theorem read_starward_meta_db_shape:
  "(isl (read_starward_meta_db data) \<longleftrightarrow> \<not> store_shape data) \<and>
   (\<forall>d. data = JObj d \<and> map_of d (u ''by_id'') = None \<longrightarrow>
        read_starward_meta_db data = Inr [])"
proof -
  have "isl (read_starward_meta_db data) \<longleftrightarrow> \<not> store_shape data"
    by (auto simp: read_starward_meta_db_def store_shape_def load_items_isl
             split: json.splits option.splits)
  moreover have "\<forall>d. data = JObj d \<and> map_of d (u ''by_id'') = None \<longrightarrow>
        read_starward_meta_db data = Inr []"
    by (simp add: read_starward_meta_db_def)
  ultimately show ?thesis by blast
qed

theorem read_starward_meta_db_shape_witness:
  "\<not> store_shape (JArr []) \<and> read_starward_meta_db (JArr []) = Inl AttributeError \<and>
   \<not> store_shape (JObj [(u ''by_id'', JNull)]) \<and>
   read_starward_meta_db (JObj [(u ''by_id'', JNull)]) = Inl AttributeError \<and>
   \<not> store_shape (JObj [(u ''by_id'', JObj [(u ''10'', JObj [(u ''name'', JStr (u ''Bow''))])])]) \<and>
   isl (read_starward_meta_db
          (JObj [(u ''by_id'', JObj [(u ''10'', JObj [(u ''name'', JStr (u ''Bow''))])])])) \<and>
   map_of [(u ''info'', JObj [])] (u ''by_id'') = None \<and>
   read_starward_meta_db (JObj [(u ''info'', JObj [])]) = Inr [] \<and>
   store_shape
     (JObj [(u ''by_id'',
             JObj [(u ''10'', JObj [(u ''name'', JStr (u ''Bow'')), (u ''item_type'', JNull),
                                    (u ''item_id'', JStr (u ''10''))])])]) \<and>
   read_starward_meta_db
     (JObj [(u ''by_id'',
             JObj [(u ''10'', JObj [(u ''name'', JStr (u ''Bow'')), (u ''item_type'', JNull),
                                    (u ''item_id'', JStr (u ''10''))])])])
   = Inr [(u ''10'', \<lparr>name = u ''Bow'', item_type = None, rank_type = None,
                       item_id = u ''10''\<rparr>)]"
  using read_starward_meta_db_shape[of "JArr []"]
    read_starward_meta_db_shape[of "JObj [(u ''info'', JObj [])]"]
    read_starward_meta_db_shape
      [of "JObj [(u ''by_id'', JObj [(u ''10'', JObj [(u ''name'', JStr (u ''Bow''))])])]"]
  by (simp add: store_shape_def entry_shape_def read_starward_meta_db_def
        StarwardMetaItem_init_def and_then_def u_def)

section \<open>The dialect readers\<close>

lemma validate_list_fails:
  "x \<in> set xs \<Longrightarrow> isl (f x) \<Longrightarrow> isl (validate_list f xs)"
  by (induction xs) (auto split: sum.splits)

lemma validate_list_length:
  "validate_list f xs = Inr ys \<Longrightarrow> length ys = length xs"
  by (induction xs arbitrary: ys) (auto split: sum.splits)

lemma SnapHutaoUserBundle_uid:
  "SnapHutaoUserBundle_validate lax_int (JObj d) = Inr b \<Longrightarrow>
   map_of d (u ''uid'') = Some (JStr (shb_uid b))"
  by (cases "map_of d (u ''uid'')" rule: req_str.cases)
     (auto simp: SnapHutaoUserBundle_validate_def and_then_def split: sum.splits)

lemma StarwardUserBundle_uid:
  "StarwardUserBundle_validate lax_int (JObj d) = Inr b \<Longrightarrow>
   map_of d (u ''uid'') = Some (JStr (swb_uid b))"
  by (cases "map_of d (u ''uid'')" rule: req_str.cases)
     (auto simp: StarwardUserBundle_validate_def and_then_def split: sum.splits)

lemma req_str_not_str: "(\<forall>s. x \<noteq> Some (JStr s)) \<Longrightarrow> req_str x = Inl ValidationError"
  by (cases x rule: req_str.cases) simp_all

lemma SnapHutaoUserBundle_no_uid:
  "\<forall>s. map_of d (u ''uid'') \<noteq> Some (JStr s) \<Longrightarrow>
   SnapHutaoUserBundle_validate lax_int (JObj d) = Inl ValidationError"
  by (simp add: SnapHutaoUserBundle_validate_def and_then_def req_str_not_str)

lemma StarwardUserBundle_no_uid:
  "\<forall>s. map_of d (u ''uid'') \<noteq> Some (JStr s) \<Longrightarrow>
   StarwardUserBundle_validate lax_int (JObj d) = Inl ValidationError"
  by (simp add: StarwardUserBundle_validate_def and_then_def req_str_not_str)

lemma read_snap_hutao_bad_bundle:
  assumes "map_of root (u ''hk4e'') = Some (JArr bs)" and "JObj d \<in> set bs"
    and "\<forall>s. map_of d (u ''uid'') \<noteq> Some (JStr s)"
  shows "read_snap_hutao_uigf4 lax_int (JObj root) = Inl (RuntimeError SnapHutaoInvalid)"
proof -
  have "isl (validate_list (SnapHutaoUserBundle_validate lax_int) bs)"
    using assms(2) SnapHutaoUserBundle_no_uid[OF assms(3), of lax_int]
    by (intro validate_list_fails[of "JObj d"]) simp_all
  then have "isl (SnapHutaoUIGF_validate lax_int (JObj root))"
    using assms(1) by (auto simp: SnapHutaoUIGF_validate_def and_then_def split: sum.splits)
  then show ?thesis
    by (auto simp: read_snap_hutao_uigf4_def split: sum.splits)
qed

lemma read_starward_bad_bundle:
  assumes "map_of root (u ''hk4e'') = Some (JArr bs)" and "JObj d \<in> set bs"
    and "\<forall>s. map_of d (u ''uid'') \<noteq> Some (JStr s)"
  shows "read_starward_uigf4 lax_int (JObj root) = Inl (RuntimeError StarwardInvalid)"
proof -
  have "isl (validate_list (StarwardUserBundle_validate lax_int) bs)"
    using assms(2) StarwardUserBundle_no_uid[OF assms(3), of lax_int]
    by (intro validate_list_fails[of "JObj d"]) simp_all
  then have "isl (StarwardUIGF_validate lax_int (JObj root))"
    using assms(1) by (auto simp: StarwardUIGF_validate_def and_then_def split: sum.splits)
  then show ?thesis
    by (auto simp: read_starward_uigf4_def split: sum.splits)
qed

lemma SnapHutaoUserBundle_no_list:
  "map_of d (u ''uid'') = Some (JStr s) \<Longrightarrow> map_of d (u ''list'') = None \<Longrightarrow>
   opt_int lax_int (map_of d (u ''timezone'')) = Inr tz \<Longrightarrow>
   SnapHutaoUserBundle_validate lax_int (JObj d)
     = Inr \<lparr>shb_uid = s, shb_timezone = tz, shb_list = []\<rparr>"
  by (simp add: SnapHutaoUserBundle_validate_def and_then_def)

lemma StarwardUserBundle_no_list:
  "map_of d (u ''uid'') = Some (JStr s) \<Longrightarrow> map_of d (u ''list'') = None \<Longrightarrow>
   opt_int lax_int (map_of d (u ''timezone'')) = Inr tz \<Longrightarrow>
   opt_str (map_of d (u ''lang'')) = Inr l \<Longrightarrow>
   StarwardUserBundle_validate lax_int (JObj d)
     = Inr \<lparr>swb_uid = s, swb_timezone = tz, swb_lang = l, swb_list = []\<rparr>"
  by (simp add: StarwardUserBundle_validate_def and_then_def)

lemma read_snap_hutao_no_hk4e:
  "map_of root (u ''info'') = Some (JObj info) \<Longrightarrow> map_of root (u ''hk4e'') = None \<Longrightarrow>
   read_snap_hutao_uigf4 lax_int (JObj root) = Inr \<lparr>shd_info = info, shd_hk4e = []\<rparr>"
  by (simp add: read_snap_hutao_uigf4_def SnapHutaoUIGF_validate_def and_then_def)

lemma read_starward_no_hk4e:
  "map_of root (u ''info'') = Some (JObj info) \<Longrightarrow> map_of root (u ''hk4e'') = None \<Longrightarrow>
   opt_list_any (map_of root (u ''hkrpg'')) = Inr a \<Longrightarrow>
   opt_list_any (map_of root (u ''nap'')) = Inr b \<Longrightarrow>
   read_starward_uigf4 lax_int (JObj root)
     = Inr \<lparr>swd_info = info, swd_hk4e = [], swd_hkrpg = a, swd_nap = b\<rparr>"
  by (simp add: read_starward_uigf4_def StarwardUIGF_validate_def and_then_def)

text \<open>
  C8, as stated, fails: a user bundle whose \<open>uid\<close> is the empty string is accepted by both
  readers (and its absent \<open>list\<close> becomes the empty list).
\<close>

theorem readers_accept_empty_uid:
  "read_snap_hutao_uigf4 only_integers
     (JObj [(u ''info'', JObj []), (u ''hk4e'', JArr [JObj [(u ''uid'', JStr [])]])])
     = Inr \<lparr>shd_info = [],
            shd_hk4e = [\<lparr>shb_uid = [], shb_timezone = None, shb_list = []\<rparr>]\<rparr> \<and>
   read_starward_uigf4 only_integers
     (JObj [(u ''info'', JObj []), (u ''hk4e'', JArr [JObj [(u ''uid'', JStr [])]])])
     = Inr \<lparr>swd_info = [],
            swd_hk4e = [\<lparr>swb_uid = [], swb_timezone = None, swb_lang = None,
                         swb_list = []\<rparr>],
            swd_hkrpg = None, swd_nap = None\<rparr>"
  by (simp add: read_snap_hutao_uigf4_def SnapHutaoUIGF_validate_def
        SnapHutaoUserBundle_validate_def read_starward_uigf4_def StarwardUIGF_validate_def
        StarwardUserBundle_validate_def and_then_def u_def)

text \<open>
  C8, amended. Both readers require of every user bundle a \<open>uid\<close> that is present and a
  string, of any length: a document with a bundle whose \<open>uid\<close> is absent or not a string
  is refused, and the \<open>uid\<close> of a validated bundle is the string of the input. An absent
  \<open>list\<close> of a bundle and an absent \<open>hk4e\<close> of the document give the empty list, not an
  error.
\<close>

theorem readers_uid_and_defaults:
  "(map_of root (u ''hk4e'') = Some (JArr bs) \<and> JObj d \<in> set bs \<and>
    (\<forall>s. map_of d (u ''uid'') \<noteq> Some (JStr s)) \<longrightarrow>
      read_snap_hutao_uigf4 lax_int (JObj root) = Inl (RuntimeError SnapHutaoInvalid) \<and>
      read_starward_uigf4 lax_int (JObj root) = Inl (RuntimeError StarwardInvalid)) \<and>
   (SnapHutaoUserBundle_validate lax_int (JObj d) = Inr b \<longrightarrow>
      map_of d (u ''uid'') = Some (JStr (shb_uid b))) \<and>
   (StarwardUserBundle_validate lax_int (JObj d) = Inr b' \<longrightarrow>
      map_of d (u ''uid'') = Some (JStr (swb_uid b'))) \<and>
   (map_of d (u ''uid'') = Some (JStr s) \<and> map_of d (u ''list'') = None \<and>
    opt_int lax_int (map_of d (u ''timezone'')) = Inr tz \<longrightarrow>
      SnapHutaoUserBundle_validate lax_int (JObj d)
        = Inr \<lparr>shb_uid = s, shb_timezone = tz, shb_list = []\<rparr>) \<and>
   (map_of d (u ''uid'') = Some (JStr s) \<and> map_of d (u ''list'') = None \<and>
    opt_int lax_int (map_of d (u ''timezone'')) = Inr tz \<and>
    opt_str (map_of d (u ''lang'')) = Inr l \<longrightarrow>
      StarwardUserBundle_validate lax_int (JObj d)
        = Inr \<lparr>swb_uid = s, swb_timezone = tz, swb_lang = l, swb_list = []\<rparr>) \<and>
   (map_of root (u ''info'') = Some (JObj info) \<and> map_of root (u ''hk4e'') = None \<longrightarrow>
      read_snap_hutao_uigf4 lax_int (JObj root) = Inr \<lparr>shd_info = info, shd_hk4e = []\<rparr>) \<and>
   (map_of root (u ''info'') = Some (JObj info) \<and> map_of root (u ''hk4e'') = None \<and>
    opt_list_any (map_of root (u ''hkrpg'')) = Inr hkrpg \<and>
    opt_list_any (map_of root (u ''nap'')) = Inr nap \<longrightarrow>
      read_starward_uigf4 lax_int (JObj root)
        = Inr \<lparr>swd_info = info, swd_hk4e = [], swd_hkrpg = hkrpg, swd_nap = nap\<rparr>)"
  using read_snap_hutao_bad_bundle[of root bs d lax_int]
    read_starward_bad_bundle[of root bs d lax_int]
    SnapHutaoUserBundle_uid[of lax_int d b] StarwardUserBundle_uid[of lax_int d b']
    SnapHutaoUserBundle_no_list[of d s lax_int tz]
    StarwardUserBundle_no_list[of d s lax_int tz l]
    read_snap_hutao_no_hk4e[of root info lax_int]
    read_starward_no_hk4e[of root info hkrpg nap lax_int]
  by blast

theorem readers_uid_and_defaults_witness:
  "read_snap_hutao_uigf4 only_integers
     (JObj [(u ''info'', JObj []), (u ''hk4e'', JArr [JObj [(u ''timezone'', JInt 8)]])])
     = Inl (RuntimeError SnapHutaoInvalid) \<and>
   read_starward_uigf4 only_integers
     (JObj [(u ''info'', JObj []), (u ''hk4e'', JArr [JObj [(u ''timezone'', JInt 8)]])])
     = Inl (RuntimeError StarwardInvalid) \<and>
   SnapHutaoUserBundle_validate only_integers (JObj [(u ''uid'', JStr (u ''100000001''))])
     = Inr \<lparr>shb_uid = u ''100000001'', shb_timezone = None, shb_list = []\<rparr> \<and>
   StarwardUserBundle_validate only_integers (JObj [(u ''uid'', JStr (u ''100000001''))])
     = Inr \<lparr>swb_uid = u ''100000001'', swb_timezone = None, swb_lang = None,
            swb_list = []\<rparr> \<and>
   read_snap_hutao_uigf4 only_integers (JObj [(u ''info'', JObj [])])
     = Inr \<lparr>shd_info = [], shd_hk4e = []\<rparr> \<and>
   read_starward_uigf4 only_integers (JObj [(u ''info'', JObj [])])
     = Inr \<lparr>swd_info = [], swd_hk4e = [], swd_hkrpg = None, swd_nap = None\<rparr>"
  using readers_uid_and_defaults
    [where root = "[(u ''info'', JObj []), (u ''hk4e'', JArr [JObj [(u ''timezone'', JInt 8)]])]"
       and bs = "[JObj [(u ''timezone'', JInt 8)]]"
       and d = "[(u ''timezone'', JInt 8)]" and lax_int = only_integers]
    readers_uid_and_defaults
    [where root = "[(u ''info'', JObj [])]" and info = "[]"
       and d = "[(u ''uid'', JStr (u ''100000001''))]" and s = "u ''100000001''"
       and tz = None and l = None and hkrpg = None and nap = None
       and lax_int = only_integers]
  by (simp add: u_def)

section \<open>The mapping importer\<close>

lemma id_name_loop_step:
  "id_name_loop ((nm, ids) # rest) acc = id_name_loop rest (id_name_step nm ids acc)"
  by (cases ids) (simp_all add: id_name_step_def)

lemma fold_update_keys:
  "fst ` set (fold (\<lambda>iid acc. AList.update (f iid) nm acc) l acc) = fst ` set acc \<union> f ` set l"
  by (induction l arbitrary: acc) (auto simp: AList.dom_update)

lemma fold_update_distinct:
  "distinct (map fst acc) \<Longrightarrow>
   distinct (map fst (fold (\<lambda>iid acc. AList.update (f iid) nm acc) l acc))"
  by (induction l arbitrary: acc) (auto simp: AList.distinct_update)

lemma fold_update_map_of:
  "map_of (fold (\<lambda>iid acc. AList.update (f iid) nm acc) l acc) k =
     (if k \<in> f ` set l then Some nm else map_of acc k)"
  by (induction l arbitrary: acc) (auto simp: AList.update_conv')

lemma id_name_step_keys:
  "fst ` set (id_name_step nm ids acc) = fst ` set acc \<union> str ` set (ids_of ids)"
  by (simp add: id_name_step_def fold_update_keys)

lemma id_name_step_distinct:
  "distinct (map fst acc) \<Longrightarrow> distinct (map fst (id_name_step nm ids acc))"
  by (simp add: id_name_step_def fold_update_distinct)

lemma id_name_step_map_of:
  "map_of (id_name_step nm ids acc) k =
     (if k \<in> str ` set (ids_of ids) then Some nm else map_of acc k)"
  by (simp add: id_name_step_def fold_update_map_of)

lemma id_name_loop_keys:
  "fst ` set (id_name_loop m acc) = fst ` set acc \<union> listed m"
proof (induction m arbitrary: acc)
  case Nil
  then show ?case by (simp add: listed_def)
next
  case (Cons p m)
  obtain nm ids where p: "p = (nm, ids)" by (cases p)
  show ?case
    unfolding p id_name_loop_step Cons.IH id_name_step_keys
    by (auto simp: listed_def)
qed

lemma id_name_loop_distinct:
  "distinct (map fst acc) \<Longrightarrow> distinct (map fst (id_name_loop m acc))"
proof (induction m arbitrary: acc)
  case Nil
  then show ?case by simp
next
  case (Cons p m)
  obtain nm ids where p: "p = (nm, ids)" by (cases p)
  show ?case
    unfolding p id_name_loop_step
    by (rule Cons.IH) (rule id_name_step_distinct[OF Cons.prems])
qed

lemma id_name_loop_untouched:
  "k \<notin> listed m \<Longrightarrow> map_of (id_name_loop m acc) k = map_of acc k"
proof (induction m arbitrary: acc)
  case Nil
  then show ?case by simp
next
  case (Cons p m)
  obtain nm ids where p: "p = (nm, ids)" by (cases p)
  from Cons.prems p have 1: "k \<notin> listed m" and 2: "k \<notin> str ` set (ids_of ids)"
    by (auto simp: listed_def)
  show ?case
    unfolding p id_name_loop_step Cons.IH[OF 1] id_name_step_map_of using 2 by simp
qed

lemma id_name_loop_append:
  "id_name_loop (m1 @ m2) acc = id_name_loop m2 (id_name_loop m1 acc)"
  by (induction m1 arbitrary: acc) auto

lemma id_name_loop_last:
  assumes "k \<in> str ` set (ids_of ids)" and "k \<notin> listed m2"
  shows "map_of (id_name_loop (m1 @ (nm, ids) # m2) acc) k = Some nm"
  unfolding id_name_loop_append id_name_loop_step id_name_loop_untouched[OF assms(2)]
    id_name_step_map_of
  using assms(1) by simp

lemma id_name_loop_name:
  "map_of (id_name_loop m acc) k = Some nm \<Longrightarrow>
   map_of acc k = Some nm \<or> (\<exists>p \<in> set m. fst p = nm \<and> k \<in> str ` set (ids_of (snd p)))"
proof (induction m arbitrary: acc)
  case Nil
  then show ?case by simp
next
  case (Cons p m)
  obtain n ids where p: "p = (n, ids)" by (cases p)
  from Cons.prems have "map_of (id_name_loop m (id_name_step n ids acc)) k = Some nm"
    unfolding p id_name_loop_step .
  from Cons.IH[OF this] show ?case
    unfolding p id_name_step_map_of by (auto split: if_splits)
qed

lemma update_fresh: "k \<notin> fst ` set al \<Longrightarrow> AList.update k v al = al @ [(k, v)]"
  by (induction al) auto

lemma fold_update_fresh:
  "distinct (map fst l) \<Longrightarrow> fst ` set l \<inter> fst ` set acc = {} \<Longrightarrow>
   fold (\<lambda>(k, v) db. AList.update k (g k v) db) l acc = acc @ map (\<lambda>(k, v). (k, g k v)) l"
proof (induction l arbitrary: acc)
  case Nil
  then show ?case by simp
next
  case (Cons p l)
  obtain k v where p: "p = (k, v)" by (cases p)
  from Cons.prems p have fresh: "k \<notin> fst ` set acc" by auto
  have "fst ` set l \<inter> fst ` set (acc @ [(k, g k v)]) = {}"
    using Cons.prems p by (auto simp: image_iff) 
  with Cons.prems p have
    "fold (\<lambda>(k, v) db. AList.update k (g k v) db) l (acc @ [(k, g k v)])
       = (acc @ [(k, g k v)]) @ map (\<lambda>(k, v). (k, g k v)) l"
    by (intro Cons.IH) simp_all
  then show ?case by (simp add: p update_fresh[OF fresh])
qed

lemma build_meta_db_from_mapping_map:
  "build_meta_db_from_mapping m =
     map (\<lambda>(iid, nm). (iid, \<lparr>name = nm, item_type = None, rank_type = None, item_id = iid\<rparr>))
       (id_name_loop m [])"
  unfolding build_meta_db_from_mapping_def UIGF_id_name_mapping_def fst_conv
  by (subst fold_update_fresh) (simp_all add: id_name_loop_distinct)

lemma map_of_tagged:
  "map_of (map (\<lambda>(iid, nm). (iid, g iid nm)) l) k = map_option (g k) (map_of l k)"
  by (induction l) auto

lemma build_map_of:
  "map_of (build_meta_db_from_mapping m) k =
     map_option (\<lambda>nm. \<lparr>name = nm, item_type = None, rank_type = None, item_id = k\<rparr>)
       (map_of (id_name_loop m []) k)"
  unfolding build_meta_db_from_mapping_map by (rule map_of_tagged)

text \<open>
  C5. For a mapping from display names to one id or a list of ids,
  \<open>build_meta_db_from_mapping\<close> gives a store with exactly one entry for each id string
  listed: the keys are pairwise different and are the strings of the listed ids; every
  entry has \<open>item_type\<close> and \<open>rank_type\<close> absent, its key as \<open>item_id\<close>, and as \<open>name\<close> a
  display name under which its id is listed, namely the one of the last mapping entry
  that lists the id. The witness is the mapping \<open>{"Sword": [1, 2], "Bow": 3}\<close>.
\<close>

theorem build_meta_db_from_mapping_entries:
  "distinct (map fst (build_meta_db_from_mapping m)) \<and>
   fst ` set (build_meta_db_from_mapping m) = (\<Union>p \<in> set m. str ` set (ids_of (snd p))) \<and>
   (\<forall>(k, e) \<in> set (build_meta_db_from_mapping m).
      item_type e = None \<and> rank_type e = None \<and> item_id e = k \<and>
      (\<exists>p \<in> set m. name e = fst p \<and> k \<in> str ` set (ids_of (snd p)))) \<and>
   (\<forall>m1 nm ids m2 k.
      m = m1 @ (nm, ids) # m2 \<and> k \<in> str ` set (ids_of ids) \<and>
      (\<forall>p \<in> set m2. k \<notin> str ` set (ids_of (snd p))) \<longrightarrow>
      map_of (build_meta_db_from_mapping m) k
        = Some \<lparr>name = nm, item_type = None, rank_type = None, item_id = k\<rparr>)"
proof (intro conjI)
  have d: "distinct (map fst (id_name_loop m []))"
    by (rule id_name_loop_distinct) simp
  have fst_eq: "map fst (build_meta_db_from_mapping m) = map fst (id_name_loop m [])"
    unfolding build_meta_db_from_mapping_map by (simp add: comp_def case_prod_beta)
  show "distinct (map fst (build_meta_db_from_mapping m))"
    unfolding fst_eq by (rule d)
  have "fst ` set (build_meta_db_from_mapping m) = set (map fst (build_meta_db_from_mapping m))"
    by simp
  also have "\<dots> = fst ` set (id_name_loop m [])" unfolding fst_eq by simp
  also have "\<dots> = listed m" by (simp add: id_name_loop_keys)
  finally show "fst ` set (build_meta_db_from_mapping m)
                  = (\<Union>p \<in> set m. str ` set (ids_of (snd p)))"
    by (simp add: listed_def)
  show "\<forall>(k, e) \<in> set (build_meta_db_from_mapping m).
      item_type e = None \<and> rank_type e = None \<and> item_id e = k \<and>
      (\<exists>p \<in> set m. name e = fst p \<and> k \<in> str ` set (ids_of (snd p)))"
  proof (clarify, intro conjI)
    fix k e assume "(k, e) \<in> set (build_meta_db_from_mapping m)"
    then obtain nm where nm: "(k, nm) \<in> set (id_name_loop m [])"
      and e: "e = \<lparr>name = nm, item_type = None, rank_type = None, item_id = k\<rparr>"
      unfolding build_meta_db_from_mapping_map by auto
    from e show "item_type e = None" "rank_type e = None" "item_id e = k" by simp_all
    from nm d have "map_of (id_name_loop m []) k = Some nm" by simp
    from id_name_loop_name[OF this] e
    show "\<exists>p \<in> set m. name e = fst p \<and> k \<in> str ` set (ids_of (snd p))" by auto
  qed
  show "\<forall>m1 nm ids m2 k.
      m = m1 @ (nm, ids) # m2 \<and> k \<in> str ` set (ids_of ids) \<and>
      (\<forall>p \<in> set m2. k \<notin> str ` set (ids_of (snd p))) \<longrightarrow>
      map_of (build_meta_db_from_mapping m) k
        = Some \<lparr>name = nm, item_type = None, rank_type = None, item_id = k\<rparr>"
  proof (intro allI impI, elim conjE)
    fix m1 nm ids m2 k
    assume m: "m = m1 @ (nm, ids) # m2" and k: "k \<in> str ` set (ids_of ids)"
      and "\<forall>p \<in> set m2. k \<notin> str ` set (ids_of (snd p))"
    then have "k \<notin> listed m2" by (auto simp: listed_def)
    from id_name_loop_last[OF k this, of m1 nm "[]"]
    show "map_of (build_meta_db_from_mapping m) k
        = Some \<lparr>name = nm, item_type = None, rank_type = None, item_id = k\<rparr>"
      unfolding build_map_of m by simp
  qed
qed

theorem build_meta_db_from_mapping_entries_witness:
  "build_meta_db_from_mapping
     [(u ''Sword'', Several [IdInt 1, IdInt 2]), (u ''Bow'', Single (IdInt 3))]
   = [(u ''1'', \<lparr>name = u ''Sword'', item_type = None, rank_type = None, item_id = u ''1''\<rparr>),
      (u ''2'', \<lparr>name = u ''Sword'', item_type = None, rank_type = None, item_id = u ''2''\<rparr>),
      (u ''3'', \<lparr>name = u ''Bow'', item_type = None, rank_type = None, item_id = u ''3''\<rparr>)] \<and>
   distinct (map fst (build_meta_db_from_mapping
     [(u ''Sword'', Several [IdInt 1, IdInt 2]), (u ''Bow'', Single (IdInt 3))])) \<and>
   fst ` set (build_meta_db_from_mapping
     [(u ''Sword'', Several [IdInt 1, IdInt 2]), (u ''Bow'', Single (IdInt 3))])
     = {u ''1'', u ''2'', u ''3''}"
  using build_meta_db_from_mapping_entries
    [of "[(u ''Sword'', Several [IdInt 1, IdInt 2]), (u ''Bow'', Single (IdInt 3))]"]
  by (simp add: build_meta_db_from_mapping_def UIGF_id_name_mapping_def str_int_def
        u_def)

section \<open>The pending entries of the completion resolver\<close>

lemma pending_filter: "pending ud db = filter incomplete (sorted_items ud db)"
  unfolding pending_def by (rule filter_cong[OF refl]) (auto simp: incomplete_def)

lemma key_isl: "isl (key ud k) \<longleftrightarrow> isdigit ud k \<and> isl (int_of_str ud k)"
  by (auto simp: key_def split: sum.splits)

lemma readable_keys: "readable ud db \<longleftrightarrow> list_all (\<lambda>kv. \<not> isl (key ud (fst kv))) db"
  by (auto simp: readable_def key_isl list_all_iff)

lemma sorted_items_readable:
  "readable ud db \<Longrightarrow> sorted_items ud db = sort_key (\<lambda>kv. projr (key ud (fst kv))) db"
  by (simp add: sorted_items_def readable_keys)

lemma sorted_items_unreadable: "\<not> readable ud db \<Longrightarrow> sorted_items ud db = db"
  by (simp add: sorted_items_def readable_keys)

lemma set_sorted_items: "set (sorted_items ud db) = set db"
  by (simp add: sorted_items_def)

lemma key_order:
  assumes "\<not> isl (key ud k)" and "\<not> isl (key ud k')"
    and "projr (key ud k) \<le> projr (key ud k')"
  shows "if isdigit ud k
         then isdigit ud k' \<longrightarrow> projr (int_of_str ud k) \<le> projr (int_of_str ud k')
         else \<not> isdigit ud k' \<and> k \<le> k'"
  using assms by (auto simp: key_def split: sum.splits if_splits)

text \<open>Which keys \<open>int\<close> reads: those made of decimal digits that are within the limit on
  the length of a numeral. A numeral beyond the limit raises, and the store comes back
  unsorted, as on the keys \<open>abc\<close>, \<open>2\<close> and a numeral of 4301 ones.\<close>

lemma decimal_value_reads:
  "list_all (\<lambda>c. decimal ud c \<noteq> None) s \<Longrightarrow> \<exists>n. decimal_value ud s acc = Inr n"
  by (induction s arbitrary: acc) auto

lemma int_of_str_reads:
  assumes "list_all (\<lambda>c. decimal ud c \<noteq> None) s"
    and "length s \<le> 640 \<or> max_str_digits ud = 0 \<or> length s \<le> max_str_digits ud"
  shows "\<exists>n. int_of_str ud s = Inr n"
  using assms(2) decimal_value_reads[OF assms(1), of 0]
  by (auto simp: int_of_str_def)

lemma int_of_str_too_long:
  "640 < length s \<Longrightarrow> 0 < max_str_digits ud \<Longrightarrow> max_str_digits ud < length s \<Longrightarrow>
   int_of_str ud s = Inl ValueError"
  by (simp add: int_of_str_def)

lemma pending_unsorted_on_long_numeral:
  "isdigit latin1 (replicate 4301 49) \<and>
   int_of_str latin1 (replicate 4301 49) = Inl ValueError \<and>
   map fst (pending latin1
     [(u ''abc'', \<lparr>name = u ''Abc'', item_type = None, rank_type = None, item_id = u ''abc''\<rparr>),
      (u ''2'', \<lparr>name = u ''Two'', item_type = None, rank_type = None, item_id = u ''2''\<rparr>),
      (replicate 4301 49,
       \<lparr>name = u ''Long'', item_type = None, rank_type = None,
        item_id = replicate 4301 49\<rparr>)])
   = [u ''abc'', u ''2'', replicate 4301 49]"
proof -
  have d: "isdigit latin1 (replicate 4301 49)"
    by (simp add: isdigit_def latin1_def list_all_iff)
  have i: "int_of_str latin1 (replicate 4301 49) = Inl ValueError"
    by (rule int_of_str_too_long) (simp_all add: latin1_def)
  have k: "isl (key latin1 (replicate 4301 49))"
    using d i by (simp add: key_def)
  have ne: "replicate 4301 (49::nat) \<noteq> []" by simp
  show ?thesis
    using d i k ne
    by (simp add: pending_def sorted_items_def truthy_def u_def)
qed

text \<open>
  C6, amended. The pending list holds exactly the entries of the store with a non-empty
  \<open>item_id\<close> and a non-empty \<open>name\<close> whose \<open>item_type\<close> or \<open>rank_type\<close> is empty. When every
  key made of digit characters only is read by \<open>int\<close> (its characters are decimal digits
  and it is within the interpreter's limit on the length of a numeral), the list is
  ordered: keys of digits first, by their number, then the other keys in lexical order.
  When some key of digit characters is not read by \<open>int\<close>, the sort is given up and the
  list is in the order of the store.
\<close>

theorem pending_selection_and_order:
  "set (pending ud db) =
     {kv \<in> set db. item_id (snd kv) \<noteq> [] \<and> name (snd kv) \<noteq> [] \<and>
                   (\<not> truthy (item_type (snd kv)) \<or> \<not> truthy (rank_type (snd kv)))} \<and>
   ((\<forall>kv \<in> set db. isdigit ud (fst kv) \<longrightarrow> (\<exists>n. int_of_str ud (fst kv) = Inr n)) \<longrightarrow>
      sorted_wrt
        (\<lambda>k k'. if isdigit ud k
                 then isdigit ud k' \<longrightarrow> projr (int_of_str ud k) \<le> projr (int_of_str ud k')
                 else \<not> isdigit ud k' \<and> k \<le> k')
        (map fst (pending ud db))) \<and>
   (\<not> (\<forall>kv \<in> set db. isdigit ud (fst kv) \<longrightarrow> (\<exists>n. int_of_str ud (fst kv) = Inr n)) \<longrightarrow>
      pending ud db =
        filter (\<lambda>kv. item_id (snd kv) \<noteq> [] \<and> name (snd kv) \<noteq> [] \<and>
                      (\<not> truthy (item_type (snd kv)) \<or> \<not> truthy (rank_type (snd kv)))) db)"
proof (intro conjI impI)
  have H: "(\<forall>kv \<in> set db. isdigit ud (fst kv) \<longrightarrow> (\<exists>n. int_of_str ud (fst kv) = Inr n))
             \<longleftrightarrow> readable ud db"
    unfolding readable_def list_all_iff
    by (metis isl_def sum.collapse(2) sum.disc(2))
  show "set (pending ud db) =
     {kv \<in> set db. item_id (snd kv) \<noteq> [] \<and> name (snd kv) \<noteq> [] \<and>
                   (\<not> truthy (item_type (snd kv)) \<or> \<not> truthy (rank_type (snd kv)))}"
    by (auto simp: pending_filter set_sorted_items incomplete_def)
  {
    assume "\<forall>kv \<in> set db. isdigit ud (fst kv) \<longrightarrow> (\<exists>n. int_of_str ud (fst kv) = Inr n)"
    with H have r: "readable ud db" by simp
    let ?f = "\<lambda>kv. projr (key ud (fst kv))"
    let ?R = "\<lambda>k k'. if isdigit ud k
                 then isdigit ud k' \<longrightarrow> projr (int_of_str ud k) \<le> projr (int_of_str ud k')
                 else \<not> isdigit ud k' \<and> k \<le> k'"
    have "sorted (map ?f (filter incomplete (sort_key ?f db)))"
      by (rule sorted_filter) (rule sorted_sort_key)
    then have s: "sorted_wrt (\<lambda>a b. ?f a \<le> ?f b) (pending ud db)"
      by (simp add: pending_filter sorted_items_readable[OF r] sorted_map)
    have "sorted_wrt (\<lambda>a b. ?R (fst a) (fst b)) (pending ud db)"
    proof (rule sorted_wrt_mono_rel[OF _ s])
      fix a b assume "a \<in> set (pending ud db)" "b \<in> set (pending ud db)" "?f a \<le> ?f b"
      moreover from this have "a \<in> set db" "b \<in> set db"
        by (simp_all add: pending_filter set_sorted_items)
      moreover from this r have "\<not> isl (key ud (fst a))" "\<not> isl (key ud (fst b))"
        by (simp_all add: readable_keys list_all_iff)
      ultimately show "?R (fst a) (fst b)" by (intro key_order) 
    qed
    then show "sorted_wrt ?R (map fst (pending ud db))"
      by (simp add: sorted_wrt_map)
  }
  {
    assume "\<not> (\<forall>kv \<in> set db. isdigit ud (fst kv) \<longrightarrow> (\<exists>n. int_of_str ud (fst kv) = Inr n))"
    with H have nr: "\<not> readable ud db" by simp
    show "pending ud db =
        filter (\<lambda>kv. item_id (snd kv) \<noteq> [] \<and> name (snd kv) \<noteq> [] \<and>
                      (\<not> truthy (item_type (snd kv)) \<or> \<not> truthy (rank_type (snd kv)))) db"
      unfolding pending_filter sorted_items_unreadable[OF nr]
      by (rule filter_cong[OF refl]) (auto simp: incomplete_def)
  }
qed

text \<open>
  C6, as stated, fails on a store with the keys \<open>abc\<close>, \<open>2\<close> and the superscript two, in
  that order, all incomplete: the superscript passes \<open>isdigit\<close> but \<open>int\<close> raises on it, the
  \<open>except\<close> branch keeps the store's order, and \<open>abc\<close> comes before \<open>2\<close>.
\<close>

theorem pending_unsorted_on_superscript:
  "map fst (pending latin1
     [(u ''abc'', \<lparr>name = u ''Abc'', item_type = None, rank_type = None, item_id = u ''abc''\<rparr>),
      (u ''2'', \<lparr>name = u ''Two'', item_type = None, rank_type = None, item_id = u ''2''\<rparr>),
      ([178], \<lparr>name = u ''Squared'', item_type = None, rank_type = None, item_id = [178]\<rparr>)])
   = [u ''abc'', u ''2'', [178]] \<and>
   \<not> isdigit latin1 (u ''abc'') \<and> isdigit latin1 (u ''2'') \<and>
   int_of_str latin1 (u ''2'') = Inr 2 \<and>
   isdigit latin1 [178] \<and> int_of_str latin1 [178] = Inl ValueError"
  by (simp add: pending_def sorted_items_def key_def isdigit_def int_of_str_def latin1_def
        truthy_def u_def)

theorem pending_selection_and_order_witness:
  "int_of_str latin1 (u ''10'') = Inr 10 \<and> int_of_str latin1 (u ''2'') = Inr 2 \<and>
   \<not> isdigit latin1 (u ''abc'') \<and>
   pending latin1
     [(u ''10'', \<lparr>name = u ''Ten'', item_type = None, rank_type = None, item_id = u ''10''\<rparr>),
      (u ''2'', \<lparr>name = u ''Two'', item_type = None, rank_type = None, item_id = u ''2''\<rparr>),
      (u ''abc'', \<lparr>name = u ''Abc'', item_type = None, rank_type = None, item_id = u ''abc''\<rparr>)]
   = [(u ''2'', \<lparr>name = u ''Two'', item_type = None, rank_type = None, item_id = u ''2''\<rparr>),
      (u ''10'', \<lparr>name = u ''Ten'', item_type = None, rank_type = None, item_id = u ''10''\<rparr>),
      (u ''abc'', \<lparr>name = u ''Abc'', item_type = None, rank_type = None, item_id = u ''abc''\<rparr>)] \<and>
   isdigit latin1 [178] \<and> int_of_str latin1 [178] = Inl ValueError \<and>
   pending latin1
     [(u ''abc'', \<lparr>name = u ''Abc'', item_type = None, rank_type = None, item_id = u ''abc''\<rparr>),
      (u ''2'', \<lparr>name = u ''Two'', item_type = None, rank_type = None, item_id = u ''2''\<rparr>),
      ([178], \<lparr>name = u ''Squared'', item_type = None, rank_type = None, item_id = [178]\<rparr>)]
   = [(u ''abc'', \<lparr>name = u ''Abc'', item_type = None, rank_type = None, item_id = u ''abc''\<rparr>),
      (u ''2'', \<lparr>name = u ''Two'', item_type = None, rank_type = None, item_id = u ''2''\<rparr>),
      ([178], \<lparr>name = u ''Squared'', item_type = None, rank_type = None, item_id = [178]\<rparr>)]"
  using pending_selection_and_order
    [of latin1
     "[(u ''10'', \<lparr>name = u ''Ten'', item_type = None, rank_type = None, item_id = u ''10''\<rparr>),
      (u ''2'', \<lparr>name = u ''Two'', item_type = None, rank_type = None, item_id = u ''2''\<rparr>),
      (u ''abc'', \<lparr>name = u ''Abc'', item_type = None, rank_type = None, item_id = u ''abc''\<rparr>)]"]
    pending_selection_and_order
    [of latin1
     "[(u ''abc'', \<lparr>name = u ''Abc'', item_type = None, rank_type = None, item_id = u ''abc''\<rparr>),
      (u ''2'', \<lparr>name = u ''Two'', item_type = None, rank_type = None, item_id = u ''2''\<rparr>),
      ([178], \<lparr>name = u ''Squared'', item_type = None, rank_type = None, item_id = [178]\<rparr>)]"]
  by (simp add: pending_def sorted_items_def key_def isdigit_def int_of_str_def latin1_def
        truthy_def u_def)

section \<open>The wizard and the command-line fallback\<close>

lemma kept_all_refl: "kept_all its its"
  by (simp add: kept_all_def list_all2_refl keeps_refl)

lemma kept_all_trans: "kept_all a b \<Longrightarrow> kept_all b c \<Longrightarrow> kept_all a c"
  unfolding kept_all_def list_all2_conv_all_nth
  by (auto, blast intro: keeps_trans)

lemma save_current_Inr:
  assumes "save_current w var_type var_rank = Inr w'"
  shows "index w < length (items w) \<and> index w' = index w \<and> window_open w' = window_open w \<and>
         items w' =
           (items w)[index w :=
             (fst (items w ! index w),
              (snd (items w ! index w))
                \<lparr>item_type := (if truthy (item_type (snd (items w ! index w)))
                                then item_type (snd (items w ! index w)) else Some var_type),
                 rank_type := (if truthy (rank_type (snd (items w ! index w)))
                                then rank_type (snd (items w ! index w)) else Some var_rank)\<rparr>)]"
  using assms
  by (auto simp: save_current_def Let_def case_prod_beta split: if_splits)

lemma save_current_kept:
  assumes "save_current w var_type var_rank = Inr w'"
  shows "kept_all (items w) (items w')"
proof -
  note s = save_current_Inr[OF assms]
  show ?thesis
    unfolding kept_all_def list_all2_conv_all_nth
  proof (intro conjI allI impI)
    show "length (items w) = length (items w')" using s by simp
    fix j assume "j < length (items w)"
    then show "fst (items w' ! j) = fst (items w ! j)"
      "name (snd (items w' ! j)) = name (snd (items w ! j))"
      "keeps (snd (items w ! j)) (snd (items w' ! j))"
      using s by (auto simp: nth_list_update keeps_def)
  qed
qed

lemma load_current_Inr: "load_current w = Inr w' \<Longrightarrow> w' = w"
  by (auto simp: load_current_def split: if_splits)

lemma handle_kept: "handle w e = Inr w' \<Longrightarrow> kept_all (items w) (items w')"
proof (cases e)
  case (SaveNext ty rk)
  assume h: "handle w e = Inr w'"
  then obtain w1 where w1: "save_current w ty rk = Inr w1"
    by (cases "save_current w ty rk") (auto simp: SaveNext on_save_next_def and_then_def)
  with h have "items w' = items w1"
    by (auto simp: SaveNext on_save_next_def and_then_def on_finish_def
             dest!: load_current_Inr split: if_splits)
  with save_current_kept[OF w1] show ?thesis by simp
qed (auto simp: on_prev_def on_skip_def on_finish_def on_cancel_def kept_all_refl
          dest!: load_current_Inr split: if_splits)

lemma mainloop_kept: "mainloop w events = Inr w' \<Longrightarrow> kept_all (items w) (items w')"
proof (induction events arbitrary: w)
  case Nil
  then show ?case by (simp add: kept_all_refl)
next
  case (Cons e es)
  show ?case
  proof (cases "window_open w")
    case False
    with Cons.prems show ?thesis by (simp add: kept_all_refl)
  next
    case True
    with Cons.prems obtain w1 where w1: "handle w e = Inr w1" and r: "mainloop w1 es = Inr w'"
      by (cases "handle w e") auto
    from handle_kept[OF w1] Cons.IH[OF r] show ?thesis by (rule kept_all_trans)
  qed
qed

lemma handle_total:
  assumes "index w < length (items w)"
  shows "\<exists>w'. handle w e = Inr w' \<and> index w' < length (items w')"
proof (cases e)
  case (SaveNext ty rk)
  from assms obtain w1 where w1: "save_current w ty rk = Inr w1"
    by (auto simp: save_current_def Let_def case_prod_beta)
  from save_current_Inr[OF w1] have "index w1 < length (items w1)" by simp
  then show ?thesis
    by (auto simp: SaveNext on_save_next_def and_then_def w1 load_current_def on_finish_def)
qed (use assms in \<open>auto simp: on_prev_def on_skip_def on_finish_def on_cancel_def load_current_def\<close>)

lemma mainloop_total:
  "index w < length (items w) \<Longrightarrow> \<exists>w'. mainloop w events = Inr w'"
proof (induction events arbitrary: w)
  case Nil
  then show ?case by simp
next
  case (Cons e es)
  from handle_total[OF Cons.prems, of e] obtain w1 where
    "handle w e = Inr w1" "index w1 < length (items w1)" by blast
  with Cons.IH[of w1] show ?case by auto
qed

lemma ask_item_type_cases:
  "fst (ask_item_type answers) = Inr (Some v) \<Longrightarrow> v \<in> set ITEM_TYPES"
  by (induction answers) (auto simp: ITEM_TYPES_def split: if_splits)

lemma ask_rank_type_cases:
  "fst (ask_rank_type answers) = Inr (Some v) \<Longrightarrow> v \<in> set RANK_CHOICES"
  by (induction answers) (auto split: if_splits)

lemma cli_entry_kept:
  "cli_entry meta answers = (meta', answers', err) \<Longrightarrow>
   name meta' = name meta \<and> keeps meta meta'"
  by (auto simp: cli_entry_def keeps_def Let_def
           split: if_splits prod.splits sum.splits option.splits)

lemma cli_loop_kept: "cli_loop its answers = (its', err) \<Longrightarrow> kept_all its its'"
proof (induction its arbitrary: answers its' err)
  case Nil
  then show ?case by (simp add: kept_all_def)
next
  case (Cons p its)
  obtain iid meta where p: "p = (iid, meta)" by (cases p)
  obtain meta1 answers1 err1 where c: "cli_entry meta answers = (meta1, answers1, err1)"
    by (cases "cli_entry meta answers") auto
  note k = cli_entry_kept[OF c]
  show ?case
  proof (cases err1)
    case (Some e)
    with Cons.prems p c have "its' = (iid, meta1) # its" by simp
    with k p show ?thesis
      using kept_all_refl[of its] by (simp add: kept_all_def)
  next
    case None
    obtain rest' err' where r: "cli_loop its answers1 = (rest', err')"
      by (cases "cli_loop its answers1") auto
    with None Cons.prems p c have "its' = (iid, meta1) # rest'" by simp
    with k p Cons.IH[OF r] show ?thesis by (simp add: kept_all_def)
  qed
qed

lemma kept_all_nth:
  "kept_all its its' \<Longrightarrow>
   length its' = length its \<and>
   (\<forall>j < length its.
      fst (its' ! j) = fst (its ! j) \<and>
      name (snd (its' ! j)) = name (snd (its ! j)) \<and>
      item_id (snd (its' ! j)) = item_id (snd (its ! j)) \<and>
      (truthy (item_type (snd (its ! j))) \<longrightarrow>
         item_type (snd (its' ! j)) = item_type (snd (its ! j))) \<and>
      (truthy (rank_type (snd (its ! j))) \<longrightarrow>
         rank_type (snd (its' ! j)) = rank_type (snd (its ! j))))"
  by (auto simp: kept_all_def list_all2_conv_all_nth keeps_def)

lemma store_after_map_of:
  "map_of (store_after db its) k =
     map_option (\<lambda>m. case map_of its k of None \<Rightarrow> m | Some m' \<Rightarrow> m') (map_of db k)"
  by (induction db) (auto simp: store_after_def split: option.splits)

lemma pending_subset: "set (pending ud db) \<subseteq> set db"
  by (auto simp: pending_filter set_sorted_items)

lemma store_after_kept:
  assumes d: "distinct (map fst db)" and e: "map_of db k = Some e"
    and k: "kept_all (pending ud db) its'"
  shows "\<exists>e'. map_of (store_after db its') k = Some e' \<and> name e' = name e \<and> keeps e e'"
proof (cases "map_of its' k")
  case None
  with e show ?thesis by (simp add: store_after_map_of keeps_refl)
next
  case (Some m')
  then have "(k, m') \<in> set its'" by (rule map_of_SomeD)
  then obtain j where j: "j < length its'" "its' ! j = (k, m')"
    by (auto simp: in_set_conv_nth)
  from k have len: "length its' = length (pending ud db)"
    and all: "\<And>i. i < length its' \<Longrightarrow>
           fst (its' ! i) = fst (pending ud db ! i) \<and>
           name (snd (its' ! i)) = name (snd (pending ud db ! i)) \<and>
           keeps (snd (pending ud db ! i)) (snd (its' ! i))"
    by (auto simp: kept_all_def list_all2_conv_all_nth)
  from all[OF j(1)] j(2) have p: "fst (pending ud db ! j) = k"
    "name m' = name (snd (pending ud db ! j))" "keeps (snd (pending ud db ! j)) m'"
    by simp_all
  from j(1) len have "pending ud db ! j \<in> set (pending ud db)" by simp
  with pending_subset have "pending ud db ! j \<in> set db" by blast
  with p(1) have "(k, snd (pending ud db ! j)) \<in> set db"
    by (metis prod.collapse)
  with d have "map_of db k = Some (snd (pending ud db ! j))" by simp
  with e have "snd (pending ud db ! j) = e" by simp
  with p Some e show ?thesis by (simp add: store_after_map_of)
qed

lemma prompt_kept:
  assumes d: "distinct (map fst db)" and e: "map_of db k = Some e"
  shows "\<exists>db' e'. prompt_missing_meta_fields ud db events = Inr db' \<and>
           map_of db' k = Some e' \<and> name e' = name e \<and> keeps e e'"
proof (cases "pending ud db = []")
  case True
  with e show ?thesis by (simp add: prompt_missing_meta_fields_def keeps_refl)
next
  case False
  let ?w = "\<lparr>items = pending ud db, index = 0, window_open = True\<rparr>"
  from False have "index ?w < length (items ?w)" by simp
  from mainloop_total[OF this, of events] obtain w' where w': "mainloop ?w events = Inr w'"
    by blast
  from mainloop_kept[OF w'] have "kept_all (pending ud db) (items w')" by simp
  from store_after_kept[OF d e this] False w' show ?thesis
    by (simp add: prompt_missing_meta_fields_def)
qed

text \<open>
  C7. When an answer is submitted, \<open>save_current\<close> writes the selected \<open>item_type\<close> only
  if the entry's \<open>item_type\<close> is empty at that moment, and the selected \<open>rank_type\<close> only if
  its \<open>rank_type\<close> is empty; a field that is filled keeps its value whatever was
  selected, and the name, the item id and all other entries are untouched. The same
  holds over any run of the wizard (which always ends without an error from a valid
  index), over the command-line fallback, and for the store that
  \<open>prompt_missing_meta_fields\<close> leaves behind.
\<close>

theorem resolver_keeps_filled_fields:
  "(save_current w var_type var_rank = Inr w' \<longrightarrow>
      index w < length (items w) \<and> length (items w') = length (items w) \<and>
      (\<forall>j < length (items w).
         fst (items w' ! j) = fst (items w ! j) \<and>
         name (snd (items w' ! j)) = name (snd (items w ! j)) \<and>
         item_id (snd (items w' ! j)) = item_id (snd (items w ! j)) \<and>
         item_type (snd (items w' ! j)) =
           (if j = index w \<and> \<not> truthy (item_type (snd (items w ! j)))
            then Some var_type else item_type (snd (items w ! j))) \<and>
         rank_type (snd (items w' ! j)) =
           (if j = index w \<and> \<not> truthy (rank_type (snd (items w ! j)))
            then Some var_rank else rank_type (snd (items w ! j))))) \<and>
   (index w < length (items w) \<longrightarrow>
      (\<exists>w2. mainloop w events = Inr w2 \<and>
         length (items w2) = length (items w) \<and>
         (\<forall>j < length (items w).
            fst (items w2 ! j) = fst (items w ! j) \<and>
            name (snd (items w2 ! j)) = name (snd (items w ! j)) \<and>
            item_id (snd (items w2 ! j)) = item_id (snd (items w ! j)) \<and>
            (truthy (item_type (snd (items w ! j))) \<longrightarrow>
               item_type (snd (items w2 ! j)) = item_type (snd (items w ! j))) \<and>
            (truthy (rank_type (snd (items w ! j))) \<longrightarrow>
               rank_type (snd (items w2 ! j)) = rank_type (snd (items w ! j)))))) \<and>
   (length (fst (cli_loop its answers)) = length its \<and>
    (\<forall>j < length its.
       fst (fst (cli_loop its answers) ! j) = fst (its ! j) \<and>
       name (snd (fst (cli_loop its answers) ! j)) = name (snd (its ! j)) \<and>
       item_id (snd (fst (cli_loop its answers) ! j)) = item_id (snd (its ! j)) \<and>
       (truthy (item_type (snd (its ! j))) \<longrightarrow>
          item_type (snd (fst (cli_loop its answers) ! j)) = item_type (snd (its ! j))) \<and>
       (truthy (rank_type (snd (its ! j))) \<longrightarrow>
          rank_type (snd (fst (cli_loop its answers) ! j)) = rank_type (snd (its ! j))))) \<and>
   (distinct (map fst db) \<and> map_of db k = Some e \<longrightarrow>
      (\<exists>db' e'. prompt_missing_meta_fields ud db events = Inr db' \<and>
         map_of db' k = Some e' \<and> name e' = name e \<and> item_id e' = item_id e \<and>
         (truthy (item_type e) \<longrightarrow> item_type e' = item_type e) \<and>
         (truthy (rank_type e) \<longrightarrow> rank_type e' = rank_type e)))"
proof (intro conjI impI)
  {
    assume a: "save_current w var_type var_rank = Inr w'"
    note s = save_current_Inr[OF a]
    from s show "index w < length (items w)" by simp
    from s show "length (items w') = length (items w)" by simp
    from s show "\<forall>j < length (items w).
         fst (items w' ! j) = fst (items w ! j) \<and>
         name (snd (items w' ! j)) = name (snd (items w ! j)) \<and>
         item_id (snd (items w' ! j)) = item_id (snd (items w ! j)) \<and>
         item_type (snd (items w' ! j)) =
           (if j = index w \<and> \<not> truthy (item_type (snd (items w ! j)))
            then Some var_type else item_type (snd (items w ! j))) \<and>
         rank_type (snd (items w' ! j)) =
           (if j = index w \<and> \<not> truthy (rank_type (snd (items w ! j)))
            then Some var_rank else rank_type (snd (items w ! j)))"
      by (auto simp: nth_list_update)
  }
  {
    assume "index w < length (items w)"
    from mainloop_total[OF this, of events] obtain w2 where w2: "mainloop w events = Inr w2"
      by blast
    from kept_all_nth[OF mainloop_kept[OF w2]] w2
    show "\<exists>w2. mainloop w events = Inr w2 \<and>
         length (items w2) = length (items w) \<and>
         (\<forall>j < length (items w).
            fst (items w2 ! j) = fst (items w ! j) \<and>
            name (snd (items w2 ! j)) = name (snd (items w ! j)) \<and>
            item_id (snd (items w2 ! j)) = item_id (snd (items w ! j)) \<and>
            (truthy (item_type (snd (items w ! j))) \<longrightarrow>
               item_type (snd (items w2 ! j)) = item_type (snd (items w ! j))) \<and>
            (truthy (rank_type (snd (items w ! j))) \<longrightarrow>
               rank_type (snd (items w2 ! j)) = rank_type (snd (items w ! j))))"
      by blast
  }
  have c: "kept_all its (fst (cli_loop its answers))"
    by (rule cli_loop_kept[of its answers _ "snd (cli_loop its answers)"]) simp
  from kept_all_nth[OF c] show "length (fst (cli_loop its answers)) = length its" by simp
  from kept_all_nth[OF c] show "\<forall>j < length its.
       fst (fst (cli_loop its answers) ! j) = fst (its ! j) \<and>
       name (snd (fst (cli_loop its answers) ! j)) = name (snd (its ! j)) \<and>
       item_id (snd (fst (cli_loop its answers) ! j)) = item_id (snd (its ! j)) \<and>
       (truthy (item_type (snd (its ! j))) \<longrightarrow>
          item_type (snd (fst (cli_loop its answers) ! j)) = item_type (snd (its ! j))) \<and>
       (truthy (rank_type (snd (its ! j))) \<longrightarrow>
          rank_type (snd (fst (cli_loop its answers) ! j)) = rank_type (snd (its ! j)))"
    by simp
  {
    assume "distinct (map fst db) \<and> map_of db k = Some e"
    then have d: "distinct (map fst db)" and e: "map_of db k = Some e" by simp_all
    from prompt_kept[OF d e, of ud events]
    show "\<exists>db' e'. prompt_missing_meta_fields ud db events = Inr db' \<and>
         map_of db' k = Some e' \<and> name e' = name e \<and> item_id e' = item_id e \<and>
         (truthy (item_type e) \<longrightarrow> item_type e' = item_type e) \<and>
         (truthy (rank_type e) \<longrightarrow> rank_type e' = rank_type e)"
      by (auto simp: keeps_def)
  }
qed

theorem resolver_keeps_filled_fields_witness:
  "truthy (Some [27494, 22120]) \<and>
   save_current
     \<lparr>items = [(u ''10'', \<lparr>name = u ''Aqua Simulacra'', item_type = Some [27494, 22120],
        rank_type = None, item_id = u ''10''\<rparr>)], index = 0, window_open = True\<rparr>
     [35282, 33394] (u ''5'')
   = Inr \<lparr>items = [(u ''10'', \<lparr>name = u ''Aqua Simulacra'', item_type = Some [27494, 22120],
        rank_type = Some (u ''5''), item_id = u ''10''\<rparr>)], index = 0, window_open = True\<rparr> \<and>
   mainloop
     \<lparr>items = [(u ''10'', \<lparr>name = u ''Aqua Simulacra'', item_type = Some [27494, 22120],
        rank_type = None, item_id = u ''10''\<rparr>)], index = 0, window_open = True\<rparr>
     [SaveNext [35282, 33394] (u ''5'')]
   = Inr \<lparr>items = [(u ''10'', \<lparr>name = u ''Aqua Simulacra'', item_type = Some [27494, 22120],
        rank_type = Some (u ''5''), item_id = u ''10''\<rparr>)], index = 0, window_open = False\<rparr> \<and>
   cli_loop [(u ''10'', \<lparr>name = u ''Aqua Simulacra'', item_type = Some [27494, 22120],
        rank_type = None, item_id = u ''10''\<rparr>)] [u ''x'', u ''5'']
   = ([(u ''10'', \<lparr>name = u ''Aqua Simulacra'', item_type = Some [27494, 22120],
        rank_type = Some (u ''5''), item_id = u ''10''\<rparr>)], None) \<and>
   map_of [(u ''10'', \<lparr>name = u ''Aqua Simulacra'', item_type = Some [27494, 22120],
        rank_type = None, item_id = u ''10''\<rparr>)] (u ''10'')
   = Some \<lparr>name = u ''Aqua Simulacra'', item_type = Some [27494, 22120],
        rank_type = None, item_id = u ''10''\<rparr> \<and>
   prompt_missing_meta_fields latin1 [(u ''10'', \<lparr>name = u ''Aqua Simulacra'', item_type = Some [27494, 22120],
        rank_type = None, item_id = u ''10''\<rparr>)]
     [SaveNext [35282, 33394] (u ''5'')]
   = Inr [(u ''10'', \<lparr>name = u ''Aqua Simulacra'', item_type = Some [27494, 22120],
        rank_type = Some (u ''5''), item_id = u ''10''\<rparr>)]"
  using resolver_keeps_filled_fields
    [where w = "\<lparr>items = [(u ''10'', \<lparr>name = u ''Aqua Simulacra'', item_type = Some [27494, 22120],
        rank_type = None, item_id = u ''10''\<rparr>)], index = 0, window_open = True\<rparr>"
       and var_type = "[35282, 33394]" and var_rank = "u ''5''"
       and w' = "\<lparr>items = [(u ''10'', \<lparr>name = u ''Aqua Simulacra'', item_type = Some [27494, 22120],
        rank_type = Some (u ''5''), item_id = u ''10''\<rparr>)], index = 0, window_open = True\<rparr>"
       and events = "[SaveNext [35282, 33394] (u ''5'')]"
       and its = "[(u ''10'', \<lparr>name = u ''Aqua Simulacra'', item_type = Some [27494, 22120],
        rank_type = None, item_id = u ''10''\<rparr>)]"
       and answers = "[u ''x'', u ''5'']"
       and db = "[(u ''10'', \<lparr>name = u ''Aqua Simulacra'', item_type = Some [27494, 22120],
        rank_type = None, item_id = u ''10''\<rparr>)]"
       and k = "u ''10''"
       and e = "\<lparr>name = u ''Aqua Simulacra'', item_type = Some [27494, 22120],
        rank_type = None, item_id = u ''10''\<rparr>"
       and ud = latin1]
  by (simp add: save_current_def on_save_next_def and_then_def load_current_def
        on_finish_def cli_entry_def prompt_missing_meta_fields_def pending_def
        sorted_items_def key_def isdigit_def int_of_str_def latin1_def store_after_def
        truthy_def u_def RANK_CHOICES_def Let_def)

end
